theory Spec2Isabelle
  imports Main "HOL-Library.Word"
begin

unbundle bit_operations_syntax

section \<open>Data model\<close>

text \<open>
  Objects live in stores indexed by references (natural numbers); a nullable reference is
  an \<open>option\<close>, \<open>None\<close> being \<open>null\<close>. JavaScript's \<open>===\<close> on objects is equality of
  references. Lanes are 32-bit masks, the range of JavaScript's bitwise operators.
\<close>

type_synonym ref = nat
type_synonym Lane = "32 word"
type_synonym Lanes = "32 word"

datatype error = TypeError

text \<open>The values a state or a payload can take: \<open>undefined\<close>, \<open>null\<close>, or a plain
  object, its own properties in insertion order.\<close>

datatype 'v jsval = Undefined | Null | Obj "(string \<times> 'v) list"

text \<open>The update type's \<open>tag: 0 | 1 | 2 | 3\<close>; \<open>UpdateState\<close> is the constant 0.\<close>

datatype UpdateTag = UpdateState | ReplaceState | ForceUpdate | CaptureUpdate

record 'v Update =
  eventTime :: "int option"
  lane :: "Lane option"
  tag :: UpdateTag
  payload :: "'v jsval"
  callback :: "nat option"
  "next" :: "ref option"

text \<open>The field \<open>lanes\<close> of the shared queue is named \<open>sharedLanes\<close> here, apart from
  the fiber's \<open>lanes\<close>.\<close>

record SharedQueue =
  pending :: "ref option"
  sharedLanes :: Lanes

record 'v UpdateQueue =
  baseState :: "'v jsval"
  firstBaseUpdate :: "ref option"
  lastBaseUpdate :: "ref option"
  shared :: ref
  effects :: "ref list option"

text \<open>The fields of a fiber that the update queue and the work loop read or write.\<close>

record 'v Fiber =
  ftag :: nat
  lanes :: Lanes
  childLanes :: Lanes
  alternate :: "ref option"
  return :: "ref option"
  sibling :: "ref option"
  stateNode :: "ref option"
  memoizedProps :: "'v jsval"
  pendingProps :: "'v jsval"
  memoizedState :: "'v jsval"
  updateQueue :: "ref option"

record 'v heap =
  fibers :: "ref \<Rightarrow> 'v Fiber"
  queues :: "ref \<Rightarrow> 'v UpdateQueue"
  shareds :: "ref \<Rightarrow> SharedQueue"
  updates :: "ref \<Rightarrow> 'v Update"

definition NoLanes :: Lanes where
  "NoLanes = 0"

definition NoLane :: Lane where
  "NoLane = 0"

section \<open>The update queue\<close>

subsection \<open>Writes to the stores\<close>

definition write_next :: "ref \<Rightarrow> ref option \<Rightarrow> ('v, 'z) heap_scheme \<Rightarrow> ('v, 'z) heap_scheme" where
  "write_next u v h = h\<lparr>updates := (updates h)(u := (updates h u)\<lparr>next := v\<rparr>)\<rparr>"

definition write_pending :: "ref \<Rightarrow> ref option \<Rightarrow> ('v, 'z) heap_scheme \<Rightarrow> ('v, 'z) heap_scheme" where
  "write_pending sh v h = h\<lparr>shareds := (shareds h)(sh := (shareds h sh)\<lparr>pending := v\<rparr>)\<rparr>"

definition write_firstBaseUpdate :: "ref \<Rightarrow> ref option \<Rightarrow> ('v, 'z) heap_scheme \<Rightarrow> ('v, 'z) heap_scheme" where
  "write_firstBaseUpdate q v h = h\<lparr>queues := (queues h)(q := (queues h q)\<lparr>firstBaseUpdate := v\<rparr>)\<rparr>"

definition write_lastBaseUpdate :: "ref \<Rightarrow> ref option \<Rightarrow> ('v, 'z) heap_scheme \<Rightarrow> ('v, 'z) heap_scheme" where
  "write_lastBaseUpdate q v h = h\<lparr>queues := (queues h)(q := (queues h q)\<lparr>lastBaseUpdate := v\<rparr>)\<rparr>"

definition write_baseState :: "ref \<Rightarrow> 'v jsval \<Rightarrow> ('v, 'z) heap_scheme \<Rightarrow> ('v, 'z) heap_scheme" where
  "write_baseState q v h = h\<lparr>queues := (queues h)(q := (queues h q)\<lparr>baseState := v\<rparr>)\<rparr>"

definition write_memoizedState :: "ref \<Rightarrow> 'v jsval \<Rightarrow> ('v, 'z) heap_scheme \<Rightarrow> ('v, 'z) heap_scheme" where
  "write_memoizedState f v h = h\<lparr>fibers := (fibers h)(f := (fibers h f)\<lparr>memoizedState := v\<rparr>)\<rparr>"

subsection \<open>initializeUpdateQueue, createUpdate, enqueueUpdate\<close>

text \<open>\<open>initializeUpdateQueue\<close> allocates a queue object and its shared object; \<open>q\<close> and
  \<open>sh\<close> are the references the allocation returns.\<close>

definition initializeUpdateQueue :: "ref \<Rightarrow> ref \<Rightarrow> ref \<Rightarrow> ('v, 'z) heap_scheme \<Rightarrow> ('v, 'z) heap_scheme" where
  "initializeUpdateQueue fiber q sh h =
     h\<lparr>shareds := (shareds h)(sh := \<lparr>pending = None, sharedLanes = NoLanes\<rparr>),
       queues := (queues h)(q :=
         \<lparr>baseState = memoizedState (fibers h fiber), firstBaseUpdate = None,
          lastBaseUpdate = None, shared = sh, effects = None\<rparr>),
       fibers := (fibers h)(fiber := (fibers h fiber)\<lparr>updateQueue := Some q\<rparr>)\<rparr>"

definition createUpdate :: "'v Update" where
  "createUpdate =
     \<lparr>eventTime = Some 0, lane = None, tag = UpdateState, payload = Null,
      callback = None, next = None\<rparr>"

definition enqueueUpdate :: "ref \<Rightarrow> ref \<Rightarrow> ('v, 'z) heap_scheme \<Rightarrow> ('v, 'z) heap_scheme" where
  "enqueueUpdate fiber update h =
     (case updateQueue (fibers h fiber) of
        None \<Rightarrow> h
      | Some q \<Rightarrow>
          let sharedQueue = shared (queues h q);
              pendingU = pending (shareds h sharedQueue);
              h1 = (case pendingU of
                      None \<Rightarrow> write_next update (Some update) h
                    | Some p \<Rightarrow>
                        write_next p (Some update)
                          (write_next update (next (updates h p)) h))
          in write_pending sharedQueue (Some update) h1)"

subsection \<open>assign and getStateFromUpdate\<close>

text \<open>Modelled from the spec: \<open>assign\<close> of packages/shared/src is not among the sources;
  the spec's fold "shallow-merges payload fields over the accumulated state". Each
  source's properties are written to the target in order, a property already present
  keeping its place, and a \<open>null\<close> or \<open>undefined\<close> source is skipped.\<close>

fun set_prop :: "string \<Rightarrow> 'v \<Rightarrow> (string \<times> 'v) list \<Rightarrow> (string \<times> 'v) list" where
  "set_prop k v [] = [(k, v)]"
| "set_prop k v (p # ps) = (if fst p = k then (k, v) # ps else p # set_prop k v ps)"

fun assign_one :: "(string \<times> 'v) list \<Rightarrow> 'v jsval \<Rightarrow> (string \<times> 'v) list" where
  "assign_one target (Obj ps) = foldl (\<lambda>t (k, v). set_prop k v t) target ps"
| "assign_one target Null = target"
| "assign_one target Undefined = target"

definition assign :: "(string \<times> 'v) list \<Rightarrow> 'v jsval list \<Rightarrow> 'v jsval" where
  "assign target sources = Obj (foldl assign_one target sources)"

text \<open>The \<open>switch\<close> has the one case \<open>UpdateState\<close>; for any other tag the function falls
  off its end and returns \<open>undefined\<close>. \<open>partialState == null\<close> holds of \<open>null\<close> and of
  \<open>undefined\<close>.\<close>

definition getStateFromUpdate :: "ref \<Rightarrow> ref \<Rightarrow> 'v Update \<Rightarrow> 'v jsval \<Rightarrow> 'v jsval" where
  "getStateFromUpdate workInProgress queue update prevState =
     (case tag update of
        UpdateState \<Rightarrow>
          (let partialState = payload update
           in if partialState = Null \<or> partialState = Undefined then prevState
              else assign [] [prevState, payload update])
      | _ \<Rightarrow> Undefined)"

subsection \<open>processUpdateQueue\<close>

text \<open>The first half of \<open>processUpdateQueue\<close>, up to the end of the block guarded by
  \<open>pendingQueue !== null\<close>: it returns the local \<open>firstBaseUpdate\<close> and
  \<open>lastBaseUpdate\<close> with the store. Reading a field of a \<open>null\<close> queue throws.\<close>

definition detachPending ::
  "ref \<Rightarrow> ref \<Rightarrow> ('v, 'z) heap_scheme \<Rightarrow> error + (ref option \<times> ref option \<times> ('v, 'z) heap_scheme)" where
  "detachPending workInProgress queue h =
     (let firstBase = firstBaseUpdate (queues h queue);
          lastBase = lastBaseUpdate (queues h queue);
          pendingQueue = pending (shareds h (shared (queues h queue)))
      in case pendingQueue of
           None \<Rightarrow> Inr (firstBase, lastBase, h)
         | Some lastPendingUpdate \<Rightarrow>
             let h1 = write_pending (shared (queues h queue)) None h;
                 firstPendingUpdate = next (updates h1 lastPendingUpdate);
                 h2 = write_next lastPendingUpdate None h1;
                 firstBase' = (case lastBase of
                                 None \<Rightarrow> firstPendingUpdate
                               | Some lb \<Rightarrow> next (updates h2 lb));
                 lastBase' = Some lastPendingUpdate
             in (case alternate (fibers h2 workInProgress) of
                   None \<Rightarrow> Inr (firstBase', lastBase', h2)
                 | Some current \<Rightarrow>
                     (case updateQueue (fibers h2 current) of
                        None \<Rightarrow> Inl TypeError
                      | Some currentQueue \<Rightarrow>
                          (let currentLastBaseUpdate = lastBaseUpdate (queues h2 currentQueue)
                           in if currentLastBaseUpdate \<noteq> lastBase' then
                                (let h3 = (case currentLastBaseUpdate of
                                             None \<Rightarrow> write_firstBaseUpdate currentQueue firstPendingUpdate h2
                                           | Some c \<Rightarrow> write_next c firstPendingUpdate h2)
                                 in Inr (firstBase', lastBase',
                                         write_lastBaseUpdate currentQueue (Some lastPendingUpdate) h3))
                              else Inr (firstBase', lastBase', h2)))))"

text \<open>The second half: the block guarded by \<open>firstBaseUpdate !== null\<close>.
  \<open>newLastBaseUpdate\<close> and \<open>newFirstBaseUpdate\<close> are \<open>null\<close> throughout, so
  \<open>newBaseState\<close> is \<open>newState\<close>.\<close>

definition applyBaseUpdate :: "ref \<Rightarrow> ref \<Rightarrow> ref option \<Rightarrow> ('v, 'z) heap_scheme \<Rightarrow> ('v, 'z) heap_scheme" where
  "applyBaseUpdate workInProgress queue firstBase h =
     (case firstBase of
        None \<Rightarrow> h
      | Some update \<Rightarrow>
          let newState = getStateFromUpdate workInProgress queue (updates h update)
                           (baseState (queues h queue));
              newBaseState = newState
          in write_memoizedState workInProgress newState
               (write_lastBaseUpdate queue None
                 (write_firstBaseUpdate queue None
                   (write_baseState queue newBaseState h))))"

definition processUpdateQueue :: "ref \<Rightarrow> ('v, 'z) heap_scheme \<Rightarrow> error + ('v, 'z) heap_scheme" where
  "processUpdateQueue workInProgress h =
     (case updateQueue (fibers h workInProgress) of
        None \<Rightarrow> Inl TypeError
      | Some queue \<Rightarrow>
          (case detachPending workInProgress queue h of
             Inl e \<Rightarrow> Inl e
           | Inr (firstBase, lastBase, h1) \<Rightarrow>
               Inr (applyBaseUpdate workInProgress queue firstBase h1)))"

subsection \<open>The pending ring\<close>

text \<open>\<open>linked us xs\<close>: each element of \<open>xs\<close> has the next one as its \<open>next\<close>.\<close>

fun linked :: "(ref \<Rightarrow> 'v Update) \<Rightarrow> ref list \<Rightarrow> bool" where
  "linked us [] = True"
| "linked us [x] = True"
| "linked us (x # y # ys) = (next (us x) = Some y \<and> linked us (y # ys))"

text \<open>\<open>pendingRing h sh xs\<close>: the shared queue \<open>sh\<close> holds the updates \<open>xs\<close>, oldest
  first, as a ring: \<open>pending\<close> is the last of them, and the \<open>next\<close> links lead from the
  first through all of them and from the last back to the first. The empty ring is
  \<open>pending = null\<close>.\<close>

definition pendingRing :: "('v, 'z) heap_scheme \<Rightarrow> ref \<Rightarrow> ref list \<Rightarrow> bool" where
  "pendingRing h sh xs =
     (if xs = [] then pending (shareds h sh) = None
      else distinct xs \<and> pending (shareds h sh) = Some (last xs)
         \<and> linked (updates h) (xs @ [hd xs]))"

section \<open>The work loop\<close>

text \<open>The sources hold two versions of the work loop (ReactFiberWorkLoop); the later one,
  with lanes, is the one modelled here.\<close>

subsection \<open>Lanes, scheduler and collaborators\<close>

text \<open>Modelled from the spec: the lane model (ReactFiberLane) is not among the sources.
  The spec gives \<open>NoLanes = 0\<close>, \<open>SyncLane\<close> = bit 0, \<open>mergeLanes(a, b) = a | b\<close> and
  \<open>getHighestPriorityLane\<close> = the least-significant set bit.\<close>

definition SyncLane :: Lane where
  "SyncLane = 1"

definition mergeLanes :: "Lanes \<Rightarrow> Lanes \<Rightarrow> Lanes" where
  "mergeLanes a b = a OR b"

definition getHighestPriorityLane :: "Lanes \<Rightarrow> Lane" where
  "getHighestPriorityLane ls = ls AND (- ls)"

type_synonym Time = int

text \<open>Modelled from the spec: the cooperative-yield primitive (Scheduler), the synchronous
  task queue and the microtask collaborator are not among the sources. Their calls are
  recorded in order; \<open>scheduleCallback(priorityBand, fn)\<close> returns a handle, here a fresh
  reference. The callbacks passed are \<open>performConcurrentWorkOnRoot\<close> and
  \<open>performSyncWorkOnRoot\<close> bound to a root, and \<open>flushSyncCallbacks\<close>.\<close>

datatype SchedulerPriority =
  ImmediateSchedulerPriority | UserBlockingSchedulerPriority
  | NormalSchedulerPriority | IdleSchedulerPriority

datatype SchedulerCall =
  CancelCallback ref
  | ScheduleCallback SchedulerPriority ref ref
  | ScheduleSyncCallback ref
  | ScheduleMicrotask

text \<open>The root container. Its per-lane bookkeeping (\<open>pendingLanes\<close>, expiration times),
  which only the lane model reads and writes, is the field \<open>laneState\<close>.\<close>

record 'l FiberRoot =
  current :: ref
  finishedWork :: "ref option"
  finishedLanes :: Lanes
  callbackNode :: "ref option"
  callbackPriority :: Lane
  laneState :: 'l

text \<open>The store, the module-level variables of the work loop, and the scheduler calls made
  so far with the next fresh handle.\<close>

record ('v, 'l) state = "'v heap" +
  roots :: "ref \<Rightarrow> 'l FiberRoot"
  workInProgressRoot :: "ref option"
  workInProgress :: "ref option"
  currentEventTime :: Time
  workInProgressRootRenderLanes :: Lanes
  subtreeRenderLanes :: Lanes
  scheduled :: "SchedulerCall list"
  nextCallback :: ref

text \<open>What the work loop imports from modules that are not among the sources: constants,
  the lane model's functions on a root's bookkeeping, and the reconciliation and
  host-mutation collaborators, which transform the state.\<close>

record ('v, 'l) collaborators =
  HostRoot :: nat
  NoTimestamp :: Time
  DiscreteEventPriority :: Lane
  ContinuousEventPriority :: Lane
  DefaultEventPriority :: Lane
  IdleEventPriority :: Lane
  lanesToEventPriority :: "Lanes \<Rightarrow> Lane"
  markRootUpdated :: "'l \<Rightarrow> Lane \<Rightarrow> Time \<Rightarrow> 'l"
  markStarvedLanesAsExpired :: "'l \<Rightarrow> Time \<Rightarrow> 'l"
  getNextLanes :: "'l \<Rightarrow> Lanes \<Rightarrow> Lanes"
  markRootFinished :: "'l \<Rightarrow> Lanes \<Rightarrow> 'l"
  includesBlockingLane :: "'l \<Rightarrow> Lanes \<Rightarrow> bool"
  includesExpiredLane :: "'l \<Rightarrow> Lanes \<Rightarrow> bool"
  createWorkInProgress :: "ref \<Rightarrow> 'v jsval \<Rightarrow> ('v, 'l) state \<Rightarrow> ref \<times> ('v, 'l) state"
  beginWork :: "ref option \<Rightarrow> ref \<Rightarrow> Lanes \<Rightarrow> ('v, 'l) state \<Rightarrow> ref option \<times> ('v, 'l) state"
  completeWork :: "ref option \<Rightarrow> ref \<Rightarrow> ('v, 'l) state \<Rightarrow> ref option \<times> ('v, 'l) state"
  commitMutationEffects :: "ref \<Rightarrow> ref \<Rightarrow> ('v, 'l) state \<Rightarrow> ('v, 'l) state"

definition cancelCallback :: "ref \<Rightarrow> ('v, 'l) state \<Rightarrow> ('v, 'l) state" where
  "cancelCallback node s = s\<lparr>scheduled := scheduled s @ [CancelCallback node]\<rparr>"

definition scheduleCallback :: "SchedulerPriority \<Rightarrow> ref \<Rightarrow> ('v, 'l) state \<Rightarrow> ref \<times> ('v, 'l) state" where
  "scheduleCallback priorityLevel root s =
     (nextCallback s,
      s\<lparr>scheduled := scheduled s @ [ScheduleCallback priorityLevel root (nextCallback s)],
        nextCallback := Suc (nextCallback s)\<rparr>)"

definition scheduleSyncCallback :: "ref \<Rightarrow> ('v, 'l) state \<Rightarrow> ('v, 'l) state" where
  "scheduleSyncCallback root s = s\<lparr>scheduled := scheduled s @ [ScheduleSyncCallback root]\<rparr>"

definition scheduleMicrotask :: "('v, 'l) state \<Rightarrow> ('v, 'l) state" where
  "scheduleMicrotask s = s\<lparr>scheduled := scheduled s @ [ScheduleMicrotask]\<rparr>"

text \<open>What a function of the work loop returns: \<open>null\<close>, or nothing (\<open>undefined\<close>).\<close>

datatype returned = ReturnsNull | ReturnsUndefined

subsection \<open>Writes to fibers and roots\<close>

definition merge_lanes_at :: "ref \<Rightarrow> Lane \<Rightarrow> ('v, 'l) state \<Rightarrow> ('v, 'l) state" where
  "merge_lanes_at f l s =
     s\<lparr>fibers := (fibers s)(f := (fibers s f)\<lparr>lanes := mergeLanes (lanes (fibers s f)) l\<rparr>)\<rparr>"

definition merge_childLanes_at :: "ref \<Rightarrow> Lane \<Rightarrow> ('v, 'l) state \<Rightarrow> ('v, 'l) state" where
  "merge_childLanes_at f l s =
     s\<lparr>fibers := (fibers s)(f := (fibers s f)\<lparr>childLanes := mergeLanes (childLanes (fibers s f)) l\<rparr>)\<rparr>"

definition write_root :: "ref \<Rightarrow> ('l FiberRoot \<Rightarrow> 'l FiberRoot) \<Rightarrow> ('v, 'l) state \<Rightarrow> ('v, 'l) state" where
  "write_root root upd s = s\<lparr>roots := (roots s)(root := upd (roots s root))\<rparr>"

text \<open>The calls \<open>markRootUpdated(root, lane, eventTime)\<close>,
  \<open>markStarvedLanesAsExpired(root, eventTime)\<close> and \<open>markRootFinished(root, remainingLanes)\<close>
  of the lane model on a root, and the expression
  \<open>getNextLanes(root, root === workInProgressRoot ? workInProgressRootRenderLanes : NoLanes)\<close>
  with its second argument.\<close>

definition rootUpdated :: "('v, 'l) collaborators \<Rightarrow> ref \<Rightarrow> Lane \<Rightarrow> Time \<Rightarrow> ('v, 'l) state \<Rightarrow> ('v, 'l) state" where
  "rootUpdated env root l evTime s =
     write_root root (\<lambda>r. r\<lparr>laneState := markRootUpdated env (laneState r) l evTime\<rparr>) s"

definition starvedLanesExpired :: "('v, 'l) collaborators \<Rightarrow> ref \<Rightarrow> Time \<Rightarrow> ('v, 'l) state \<Rightarrow> ('v, 'l) state" where
  "starvedLanesExpired env root evTime s =
     write_root root (\<lambda>r. r\<lparr>laneState := markStarvedLanesAsExpired env (laneState r) evTime\<rparr>) s"

definition rootFinished :: "('v, 'l) collaborators \<Rightarrow> ref \<Rightarrow> Lanes \<Rightarrow> ('v, 'l) state \<Rightarrow> ('v, 'l) state" where
  "rootFinished env root remainingLanes s =
     write_root root (\<lambda>r. r\<lparr>laneState := markRootFinished env (laneState r) remainingLanes\<rparr>) s"

definition renderLanesOf :: "ref \<Rightarrow> ('v, 'l) state \<Rightarrow> Lanes" where
  "renderLanesOf root s =
     (if Some root = workInProgressRoot s then workInProgressRootRenderLanes s else NoLanes)"

definition nextLanesOf :: "('v, 'l) collaborators \<Rightarrow> ref \<Rightarrow> ('v, 'l) state \<Rightarrow> Lanes" where
  "nextLanesOf env root s = getNextLanes env (laneState (roots s root)) (renderLanesOf root s)"

subsection \<open>scheduleUpdateOnFiber and markUpdateLaneFromFiberToRoot\<close>

text \<open>The \<open>while (parent !== null)\<close> loop of \<open>markUpdateLaneFromFiberToRoot\<close>; it returns
  the last \<open>node\<close>. On a cyclic chain of \<open>return\<close> links it does not return.\<close>

partial_function (option) bubbleChildLanes ::
  "Lane \<Rightarrow> ref \<Rightarrow> ref option \<Rightarrow> ('v, 'l) state \<Rightarrow> (ref \<times> ('v, 'l) state) option" where
  "bubbleChildLanes l node parent s =
     (case parent of
        None \<Rightarrow> Some (node, s)
      | Some p \<Rightarrow>
          (let s1 = merge_childLanes_at p l s;
               s2 = (case alternate (fibers s1 p) of
                       None \<Rightarrow> s1
                     | Some a \<Rightarrow> merge_childLanes_at a l s1)
           in bubbleChildLanes l p (return (fibers s2 p)) s2))"

declare bubbleChildLanes.simps [code]

definition markUpdateLaneFromFiberToRoot ::
  "('v, 'l) collaborators \<Rightarrow> ref \<Rightarrow> Lane \<Rightarrow> ('v, 'l) state \<Rightarrow> (ref option \<times> ('v, 'l) state) option" where
  "markUpdateLaneFromFiberToRoot env sourceFiber l s =
     (let s1 = merge_lanes_at sourceFiber l s;
          s2 = (case alternate (fibers s1 sourceFiber) of
                  None \<Rightarrow> s1
                | Some a \<Rightarrow> merge_lanes_at a l s1)
      in case bubbleChildLanes l sourceFiber (return (fibers s2 sourceFiber)) s2 of
           None \<Rightarrow> None
         | Some (node, s3) \<Rightarrow>
             Some (if ftag (fibers s3 node) = HostRoot env then stateNode (fibers s3 node) else None,
                   s3))"

definition ensureRootIsScheduled ::
  "('v, 'l) collaborators \<Rightarrow> ref \<Rightarrow> Time \<Rightarrow> ('v, 'l) state \<Rightarrow> ('v, 'l) state" where
  "ensureRootIsScheduled env root evTime s =
     (let existingCallbackNode = callbackNode (roots s root);
          s1 = starvedLanesExpired env root evTime s;
          nextLanes = nextLanesOf env root s1
      in if nextLanes = NoLanes then
           (let s2 = (case existingCallbackNode of
                        None \<Rightarrow> s1
                      | Some node \<Rightarrow> cancelCallback node s1)
            in write_root root (\<lambda>r. r\<lparr>callbackNode := None, callbackPriority := NoLane\<rparr>) s2)
         else
           (let newCallbackPriority = getHighestPriorityLane nextLanes;
                existingCallbackPriority = callbackPriority (roots s1 root)
            in if existingCallbackPriority = newCallbackPriority then s1
               else
                 (let s2 = (case existingCallbackNode of
                              None \<Rightarrow> s1
                            | Some node \<Rightarrow> cancelCallback node s1);
                      (newCallbackNode, s3) =
                        (if newCallbackPriority = SyncLane then
                           (None, scheduleMicrotask (scheduleSyncCallback root s2))
                         else
                           (let p = lanesToEventPriority env nextLanes;
                                schedulerPriorityLevel =
                                  (if p = DiscreteEventPriority env then ImmediateSchedulerPriority
                                   else if p = ContinuousEventPriority env then UserBlockingSchedulerPriority
                                   else if p = DefaultEventPriority env then NormalSchedulerPriority
                                   else if p = IdleEventPriority env then IdleSchedulerPriority
                                   else NormalSchedulerPriority);
                                (node, s') = scheduleCallback schedulerPriorityLevel root s2
                            in (Some node, s')))
                  in write_root root
                       (\<lambda>r. r\<lparr>callbackNode := newCallbackNode,
                               callbackPriority := newCallbackPriority\<rparr>) s3)))"

definition scheduleUpdateOnFiber ::
  "('v, 'l) collaborators \<Rightarrow> ref \<Rightarrow> Lane \<Rightarrow> Time \<Rightarrow> ('v, 'l) state \<Rightarrow> (returned \<times> ('v, 'l) state) option" where
  "scheduleUpdateOnFiber env fiber l evTime s =
     (case markUpdateLaneFromFiberToRoot env fiber l s of
        None \<Rightarrow> None
      | Some (None, s1) \<Rightarrow> Some (ReturnsNull, s1)
      | Some (Some root, s1) \<Rightarrow>
          (let s2 = rootUpdated env root l evTime s1
           in Some (ReturnsUndefined, ensureRootIsScheduled env root evTime s2)))"

subsection \<open>Commit\<close>

definition commitRootImpl :: "('v, 'l) collaborators \<Rightarrow> ref \<Rightarrow> ('v, 'l) state \<Rightarrow> ('v, 'l) state" where
  "commitRootImpl env root s =
     (case finishedWork (roots s root) of
        None \<Rightarrow> s
      | Some fw \<Rightarrow>
          (let s1 = write_root root (\<lambda>r. r\<lparr>finishedWork := None, finishedLanes := NoLanes\<rparr>) s;
               s2 = write_root root (\<lambda>r. r\<lparr>callbackNode := None, callbackPriority := NoLane\<rparr>) s1;
               remainingLanes = mergeLanes (lanes (fibers s2 fw)) (childLanes (fibers s2 fw));
               s3 = rootFinished env root remainingLanes s2;
               s4 = s3\<lparr>workInProgressRoot := None, workInProgress := None\<rparr>;
               s5 = commitMutationEffects env root fw s4
           in write_root root (\<lambda>r. r\<lparr>current := fw\<rparr>) s5))"

definition commitRoot :: "('v, 'l) collaborators \<Rightarrow> ref \<Rightarrow> ('v, 'l) state \<Rightarrow> ('v, 'l) state" where
  "commitRoot env root s = commitRootImpl env root s"

definition finishConcurrentRender :: "('v, 'l) collaborators \<Rightarrow> ref \<Rightarrow> ('v, 'l) state \<Rightarrow> ('v, 'l) state" where
  "finishConcurrentRender env root s = commitRoot env root s"

subsection \<open>The render loops\<close>

text \<open>The \<open>do ... while (completedWork !== null)\<close> loop of \<open>completeUnitOfWork\<close>.\<close>

partial_function (option) completeUnitOfWork ::
  "('v, 'l) collaborators \<Rightarrow> ref \<Rightarrow> ('v, 'l) state \<Rightarrow> ('v, 'l) state option" where
  "completeUnitOfWork env completedWork s =
     (let cur = alternate (fibers s completedWork);
          returnFiber = return (fibers s completedWork)
      in case completeWork env cur completedWork s of
           (Some n, s1) \<Rightarrow> Some (s1\<lparr>workInProgress := Some n\<rparr>)
         | (None, s1) \<Rightarrow>
             (case sibling (fibers s1 completedWork) of
                Some siblingFiber \<Rightarrow> Some (s1\<lparr>workInProgress := Some siblingFiber\<rparr>)
              | None \<Rightarrow>
                  (case returnFiber of
                     None \<Rightarrow> Some (s1\<lparr>workInProgress := None\<rparr>)
                   | Some parent \<Rightarrow>
                       completeUnitOfWork env parent (s1\<lparr>workInProgress := Some parent\<rparr>))))"

declare completeUnitOfWork.simps [code]

definition performUnitOfWork ::
  "('v, 'l) collaborators \<Rightarrow> ref \<Rightarrow> ('v, 'l) state \<Rightarrow> ('v, 'l) state option" where
  "performUnitOfWork env unitOfWork s =
     (let cur = alternate (fibers s unitOfWork)
      in case beginWork env cur unitOfWork (subtreeRenderLanes s) s of
           (nxt, s1) \<Rightarrow>
             (let s2 = s1\<lparr>fibers := (fibers s1)(unitOfWork :=
                          (fibers s1 unitOfWork)\<lparr>memoizedProps := pendingProps (fibers s1 unitOfWork)\<rparr>)\<rparr>
              in case nxt of
                   None \<Rightarrow> completeUnitOfWork env unitOfWork s2
                 | Some n \<Rightarrow> Some (s2\<lparr>workInProgress := Some n\<rparr>)))"

partial_function (option) workLoopSync ::
  "('v, 'l) collaborators \<Rightarrow> ('v, 'l) state \<Rightarrow> ('v, 'l) state option" where
  "workLoopSync env s =
     (case workInProgress s of
        None \<Rightarrow> Some s
      | Some unitOfWork \<Rightarrow>
          Option.bind (performUnitOfWork env unitOfWork s) (workLoopSync env))"

declare workLoopSync.simps [code]

definition prepareFreshStack ::
  "('v, 'l) collaborators \<Rightarrow> ref \<Rightarrow> Lanes \<Rightarrow> ('v, 'l) state \<Rightarrow> ref option \<times> ('v, 'l) state" where
  "prepareFreshStack env root ls s =
     (let s1 = write_root root (\<lambda>r. r\<lparr>finishedWork := None, finishedLanes := NoLanes\<rparr>) s;
          s2 = s1\<lparr>workInProgressRoot := Some root\<rparr>;
          (rootWorkInProgress, s3) = createWorkInProgress env (current (roots s2 root)) Null s2;
          s4 = s3\<lparr>workInProgress := Some rootWorkInProgress,
                  workInProgressRootRenderLanes := ls, subtreeRenderLanes := ls\<rparr>
      in (workInProgressRoot s4, s4))"

definition renderRootSync ::
  "('v, 'l) collaborators \<Rightarrow> ref \<Rightarrow> Lanes \<Rightarrow> ('v, 'l) state \<Rightarrow> ('v, 'l) state option" where
  "renderRootSync env root ls s =
     (let s1 = (if workInProgressRoot s \<noteq> Some root \<or> workInProgressRootRenderLanes s \<noteq> ls
                then snd (prepareFreshStack env root ls s) else s)
      in case workLoopSync env s1 of
           None \<Rightarrow> None
         | Some s2 \<Rightarrow>
             Some (s2\<lparr>workInProgressRoot := None, workInProgressRootRenderLanes := NoLanes\<rparr>))"

text \<open>\<open>renderRootConcurrent\<close> has an empty body.\<close>

definition renderRootConcurrent :: "ref \<Rightarrow> ('v, 'l) state \<Rightarrow> ('v, 'l) state" where
  "renderRootConcurrent root s = s"

definition performConcurrentWorkOnRoot ::
  "('v, 'l) collaborators \<Rightarrow> ref \<Rightarrow> bool \<Rightarrow> ('v, 'l) state \<Rightarrow> (returned \<times> ('v, 'l) state) option" where
  "performConcurrentWorkOnRoot env root didTimeout s =
     (let s1 = s\<lparr>currentEventTime := NoTimestamp env\<rparr>;
          ls = nextLanesOf env root s1
      in if ls = NoLanes then Some (ReturnsNull, s1)
         else
           (let shouldTimeSlice =
                  (\<not> includesBlockingLane env (laneState (roots s1 root)) ls
                   \<and> \<not> includesExpiredLane env (laneState (roots s1 root)) ls
                   \<and> \<not> didTimeout)
            in case (if shouldTimeSlice then Some (renderRootConcurrent root s1)
                     else renderRootSync env root ls s1) of
                 None \<Rightarrow> None
               | Some s2 \<Rightarrow>
                   (let fw = alternate (fibers s2 (current (roots s2 root)));
                        s3 = write_root root (\<lambda>r. r\<lparr>finishedWork := fw\<rparr>) s2
                    in Some (ReturnsUndefined, finishConcurrentRender env root s3))))"

subsection \<open>Chains of return links\<close>

text \<open>\<open>returnPath fs n ps\<close>: following \<open>return\<close> from \<open>n\<close> visits exactly the
  fibers \<open>ps\<close> and ends there with \<open>return = null\<close>; the chain ends at \<open>last (n # ps)\<close>.\<close>

fun returnPath :: "(ref \<Rightarrow> 'v Fiber) \<Rightarrow> ref \<Rightarrow> ref list \<Rightarrow> bool" where
  "returnPath fs n [] = (return (fs n) = None)"
| "returnPath fs n (p # ps) = (return (fs n) = Some p \<and> returnPath fs p ps)"

text \<open>\<open>childLanesMarked l must F G\<close>: the fibers \<open>G\<close> are the fibers \<open>F\<close> but for
  \<open>childLanes\<close>, where \<open>l\<close> may have been merged, and was merged on \<open>must\<close>.\<close>

definition childLanesMarked :: "Lane \<Rightarrow> ref set \<Rightarrow> (ref \<Rightarrow> 'v Fiber) \<Rightarrow> (ref \<Rightarrow> 'v Fiber) \<Rightarrow> bool" where
  "childLanesMarked l must F G =
     (\<forall>x. G x = (F x)\<lparr>childLanes := childLanes (G x)\<rparr>
        \<and> (childLanes (G x) = childLanes (F x) \<or> childLanes (G x) = mergeLanes (childLanes (F x)) l)
        \<and> (x \<in> must \<longrightarrow> childLanes (G x) = mergeLanes (childLanes (F x)) l))"

subsection \<open>Counting armed callbacks\<close>

text \<open>A callback is armed by \<open>scheduleCallback\<close> or by \<open>scheduleSyncCallback\<close>.\<close>

fun isArming :: "SchedulerCall \<Rightarrow> bool" where
  "isArming (ScheduleCallback p root node) = True"
| "isArming (ScheduleSyncCallback root) = True"
| "isArming (CancelCallback node) = False"
| "isArming ScheduleMicrotask = False"

definition armedCount :: "SchedulerCall list \<Rightarrow> nat" where
  "armedCount cs = length (filter isArming cs)"

text \<open>The bookkeeping of a root after the \<open>markRootUpdated\<close> of one
  \<open>scheduleUpdateOnFiber\<close> call and the \<open>markStarvedLanesAsExpired\<close> of its
  \<open>ensureRootIsScheduled\<close>.\<close>

definition laneStateAfterUpdate :: "('v, 'l) collaborators \<Rightarrow> 'l \<Rightarrow> Lane \<Rightarrow> Time \<Rightarrow> 'l" where
  "laneStateAfterUpdate env ls l evTime =
     markStarvedLanesAsExpired env (markRootUpdated env ls l evTime) evTime"

section \<open>Example stores and collaborators\<close>

definition fiber0 :: "int Fiber" where
  "fiber0 = \<lparr>ftag = 0, lanes = 0, childLanes = 0, alternate = None, return = None,
     sibling = None, stateNode = None, memoizedProps = Null, pendingProps = Null,
     memoizedState = Null, updateQueue = None\<rparr>"

text \<open>A store of fibers without queues.\<close>

definition heap0 :: "int heap" where
  "heap0 = \<lparr>fibers = (\<lambda>_. fiber0),
     queues = (\<lambda>_. \<lparr>baseState = Null, firstBaseUpdate = None, lastBaseUpdate = None,
                     shared = 0, effects = None\<rparr>),
     shareds = (\<lambda>_. \<lparr>pending = None, sharedLanes = 0\<rparr>),
     updates = (\<lambda>_. createUpdate)\<rparr>"

text \<open>Fiber 0 with state \<open>{a: 1}\<close> and a fresh queue, onto which the updates 1 (payload
  \<open>{b: 2}\<close>) and 2 (payload \<open>{a: 3}\<close>) are enqueued in this order.\<close>

definition heap_two_updates :: "int heap" where
  "heap_two_updates =
     enqueueUpdate 0 2 (enqueueUpdate 0 1 (initializeUpdateQueue 0 0 0
       (heap0\<lparr>fibers := (fibers heap0)(0 := fiber0\<lparr>memoizedState := Obj [(''a'', 1)]\<rparr>),
              updates := (updates heap0)(1 := createUpdate\<lparr>payload := Obj [(''b'', 2)]\<rparr>,
                                         2 := createUpdate\<lparr>payload := Obj [(''a'', 3)]\<rparr>)\<rparr>)))"

text \<open>Fiber 0 whose queue has the base list [1] and the pending ring [2].\<close>

definition heap_base_and_pending :: "int heap" where
  "heap_base_and_pending =
     heap0\<lparr>fibers := (fibers heap0)(0 := fiber0\<lparr>memoizedState := Obj [(''a'', 1)],
                                              updateQueue := Some 0\<rparr>),
           queues := (queues heap0)(0 := \<lparr>baseState = Obj [(''a'', 1)], firstBaseUpdate = Some 1,
                                         lastBaseUpdate = Some 1, shared = 0, effects = None\<rparr>),
           shareds := (shareds heap0)(0 := \<lparr>pending = Some 2, sharedLanes = 0\<rparr>),
           updates := (updates heap0)(1 := createUpdate\<lparr>payload := Obj [(''b'', 2)]\<rparr>,
                                      2 := createUpdate\<lparr>payload := Obj [(''a'', 3)],
                                                        next := Some 2\<rparr>)\<rparr>"


text \<open>Fiber 0 and its twin 1 with the one queue 0, whose pending ring is [1, 2] and whose
  base list is empty.\<close>

definition heap_shared_queue :: "int heap" where
  "heap_shared_queue =
     heap0\<lparr>fibers := (fibers heap0)(0 := fiber0\<lparr>alternate := Some 1, updateQueue := Some 0\<rparr>,
                                    1 := fiber0\<lparr>alternate := Some 0, updateQueue := Some 0\<rparr>),
           shareds := (shareds heap0)(0 := \<lparr>pending = Some 2, sharedLanes = 0\<rparr>),
           updates := (updates heap0)(1 := createUpdate\<lparr>next := Some 2\<rparr>,
                                      2 := createUpdate\<lparr>next := Some 1\<rparr>)\<rparr>"

definition heap_queue :: "int heap" where
  "heap_queue = initializeUpdateQueue 0 0 0 heap0"

text \<open>Collaborators for the examples: the bookkeeping of a root is its set of pending
  lanes; lanes 1 to 4 block; no lane expires; a fiber has no children to begin.\<close>

definition example_env :: "(int, Lanes) collaborators" where
  "example_env =
     \<lparr>HostRoot = 3, NoTimestamp = - 1,
      DiscreteEventPriority = 1, ContinuousEventPriority = 4,
      DefaultEventPriority = 16, IdleEventPriority = 536870912,
      lanesToEventPriority = getHighestPriorityLane,
      markRootUpdated = (\<lambda>pendingLanes l t. pendingLanes OR l),
      markStarvedLanesAsExpired = (\<lambda>pendingLanes t. pendingLanes),
      getNextLanes = (\<lambda>pendingLanes wipLanes.
         if wipLanes \<noteq> 0 then wipLanes else getHighestPriorityLane pendingLanes),
      markRootFinished = (\<lambda>pendingLanes remainingLanes. pendingLanes AND remainingLanes),
      includesBlockingLane = (\<lambda>pendingLanes ls. ls AND 30 \<noteq> 0),
      includesExpiredLane = (\<lambda>pendingLanes ls. False),
      createWorkInProgress = (\<lambda>cur props s.
         (case alternate (fibers s cur) of None \<Rightarrow> cur | Some a \<Rightarrow> a, s)),
      beginWork = (\<lambda>cur unitOfWork ls s. (None, s)),
      completeWork = (\<lambda>cur completedWork s. (None, s)),
      commitMutationEffects = (\<lambda>root fw s. s)\<rparr>"

definition root0 :: "Lanes FiberRoot" where
  "root0 = \<lparr>current = 0, finishedWork = None, finishedLanes = 0, callbackNode = None,
            callbackPriority = 0, laneState = 0\<rparr>"

text \<open>An idle root 0 whose tree is the host root fiber 0 (a twin of fiber 3), its child 1
  and grandchild 2; the fibers 5 and 4 form a chain that ends at fiber 4, which is not a
  host root.\<close>

definition state0 :: "(int, Lanes) state" where
  "state0 =
     \<lparr>fibers = (\<lambda>_. fiber0)
                 (0 := fiber0\<lparr>ftag := 3, stateNode := Some 0, alternate := Some 3\<rparr>,
                  1 := fiber0\<lparr>ftag := 5, return := Some 0\<rparr>,
                  2 := fiber0\<lparr>ftag := 5, return := Some 1\<rparr>,
                  3 := fiber0\<lparr>ftag := 3, stateNode := Some 0, alternate := Some 0,
                              pendingProps := Obj [(''children'', 1)], childLanes := 16\<rparr>,
                  4 := fiber0\<lparr>ftag := 5\<rparr>,
                  5 := fiber0\<lparr>ftag := 5, return := Some 4, alternate := Some 4\<rparr>),
      queues = queues heap0, shareds = shareds heap0, updates = updates heap0,
      roots = (\<lambda>_. root0), workInProgressRoot = None, workInProgress = None,
      currentEventTime = - 1, workInProgressRootRenderLanes = 0, subtreeRenderLanes = 0,
      scheduled = [], nextCallback = 0\<rparr>"

text \<open>Root 0 with the callback 7 armed at lane 16, and lane 16 pending or not.\<close>

definition state_armed :: "Lanes \<Rightarrow> (int, Lanes) state" where
  "state_armed pendingLanes =
     state0\<lparr>roots := (roots state0)(0 := root0\<lparr>callbackNode := Some 7, callbackPriority := 16,
                                              laneState := pendingLanes\<rparr>),
            nextCallback := 8\<rparr>"

text \<open>Root 0 with lane 64 pending, which does not block, and no callback armed.\<close>

definition state_transition :: "(int, Lanes) state" where
  "state_transition = state0\<lparr>roots := (roots state0)(0 := root0\<lparr>laneState := 64\<rparr>)\<rparr>"

text \<open>Root 0 with the finished tree 3, lanes 1 and 16 pending, the callback 7 armed.\<close>

definition state_finished :: "(int, Lanes) state" where
  "state_finished =
     state0\<lparr>roots := (roots state0)(0 := root0\<lparr>finishedWork := Some 3, finishedLanes := 1,
                                              callbackNode := Some 7, callbackPriority := 1,
                                              laneState := 17\<rparr>),
            workInProgressRoot := Some 0, workInProgress := Some 3\<rparr>"

section \<open>Properties of the update queue\<close>

lemmas queue_defs = enqueueUpdate_def initializeUpdateQueue_def createUpdate_def
  write_next_def write_pending_def write_firstBaseUpdate_def write_lastBaseUpdate_def
  write_baseState_def write_memoizedState_def processUpdateQueue_def detachPending_def
  applyBaseUpdate_def getStateFromUpdate_def assign_def Let_def NoLanes_def

text \<open>
  Claim C1 asks that \<open>processUpdateQueue\<close> fold every update of the base list in insertion
  order, so that the state \<open>{a: 1}\<close> with the updates \<open>{b: 2}\<close> then \<open>{a: 3}\<close> becomes
  \<open>{a: 3, b: 2}\<close>. The function applies the first update only (the loop is a TODO of the
  source): the memoized state is \<open>{a: 1, b: 2}\<close>, and the base list and the pending ring
  are both emptied, so the second update is never applied.
\<close>

theorem processUpdateQueue_applies_first_update_only:
  "\<exists>h. processUpdateQueue 0 heap_two_updates = Inr h
      \<and> memoizedState (fibers h 0) = Obj [(''a'', 1), (''b'', 2)]
      \<and> memoizedState (fibers h 0) \<noteq> Obj [(''a'', 3), (''b'', 2)]
      \<and> baseState (queues h 0) = Obj [(''a'', 1), (''b'', 2)]
      \<and> firstBaseUpdate (queues h 0) = None \<and> lastBaseUpdate (queues h 0) = None
      \<and> pending (shareds h 0) = None"
  by (simp add: heap_two_updates_def heap0_def fiber0_def queue_defs)

text \<open>
  Claim C2 asks that a non-null pending ring be cut open and spliced onto the tail of the
  existing base list, the old base updates before the pending ones. With the base list [1]
  and the pending ring [2], the function clears \<open>pending\<close> and cuts the ring, but it reads
  \<open>lastBaseUpdate.next\<close> into the local \<open>firstBaseUpdate\<close> where it should write
  \<open>firstPendingUpdate\<close> to \<open>lastBaseUpdate.next\<close>: update 1 is not linked to update 2, the
  local \<open>firstBaseUpdate\<close> is \<open>null\<close>, no update is applied, and the queue keeps the base
  list [1] while update 2 is in no list. (Non-empty base lists arise from the function's
  own branch for the alternate, which links with \<open>currentLastBaseUpdate.next =
  firstPendingUpdate\<close>.)
\<close>

theorem processUpdateQueue_base_list_not_spliced:
  "\<exists>h. processUpdateQueue 0 heap_base_and_pending = Inr h
      \<and> pending (shareds h 0) = None \<and> next (updates h 2) = None
      \<and> next (updates h 1) = None
      \<and> firstBaseUpdate (queues h 0) = Some 1 \<and> lastBaseUpdate (queues h 0) = Some 1
      \<and> memoizedState (fibers h 0) = Obj [(''a'', 1)]
      \<and> map_sum id fst (detachPending 0 0 heap_base_and_pending) = Inr None"
  by (simp add: heap_base_and_pending_def heap0_def fiber0_def queue_defs)



text \<open>The fold writes the fiber's own queue and no update, so the splice is still there
  when \<open>processUpdateQueue\<close> returns if the alternate's queue is another object than the
  fiber's queue.\<close>

lemma processUpdateQueue_alternate_splice_persists:
  assumes "updateQueue (fibers h wip) = Some q"
    and "pending (shareds h (shared (queues h q))) = Some lastPending"
    and "alternate (fibers h wip) = Some cur"
    and "updateQueue (fibers h cur) = Some cq"
    and "cq \<noteq> q"
    and "lastBaseUpdate (queues h cq) \<noteq> Some lastPending"
  shows "\<exists>h'. processUpdateQueue wip h = Inr h'
      \<and> lastBaseUpdate (queues h' cq) = Some lastPending
      \<and> next (updates h' lastPending) = None
      \<and> (case lastBaseUpdate (queues h cq) of
           None \<Rightarrow> firstBaseUpdate (queues h' cq) = next (updates h lastPending)
         | Some c \<Rightarrow> next (updates h' c) = next (updates h lastPending)
                    \<and> firstBaseUpdate (queues h' cq) = firstBaseUpdate (queues h cq))"
  using assms
  by (auto simp: processUpdateQueue_def detachPending_def applyBaseUpdate_def Let_def
      write_next_def write_pending_def write_firstBaseUpdate_def write_lastBaseUpdate_def
      write_baseState_def write_memoizedState_def split: option.splits)

text \<open>When the twins share one queue object, the splice is made on that queue and the
  fold then sets its \<open>firstBaseUpdate\<close> and \<open>lastBaseUpdate\<close> to \<open>null\<close>.\<close>

lemma processUpdateQueue_shared_queue:
  "\<exists>firstBase h1 h'. detachPending 0 0 heap_shared_queue = Inr (firstBase, Some 2, h1)
      \<and> firstBaseUpdate (queues h1 0) = Some 1 \<and> lastBaseUpdate (queues h1 0) = Some 2
      \<and> processUpdateQueue 0 heap_shared_queue = Inr h'
      \<and> firstBaseUpdate (queues h' 0) = None \<and> lastBaseUpdate (queues h' 0) = None"
  by (simp add: heap_shared_queue_def heap0_def fiber0_def queue_defs)

text \<open>
  Claim C4 asks that \<open>processUpdateQueue\<close> be a no-op on a fiber whose \<open>updateQueue\<close> is
  \<open>null\<close>. The function reads \<open>queue.firstBaseUpdate\<close> without a check and throws a
  TypeError there, where \<open>enqueueUpdate\<close> returns at once.
\<close>

theorem processUpdateQueue_absent_queue_throws:
  "updateQueue (fibers heap0 0) = None
    \<and> processUpdateQueue 0 heap0 = Inl TypeError
    \<and> enqueueUpdate 0 1 heap0 = heap0"
  by (simp add: heap0_def fiber0_def queue_defs)

lemma linked_append:
  "xs \<noteq> [] \<Longrightarrow> ys \<noteq> [] \<Longrightarrow>
   linked us (xs @ ys) = (linked us xs \<and> next (us (last xs)) = Some (hd ys) \<and> linked us ys)"
proof (induction us xs rule: linked.induct)
  case (1 us)
  then show ?case by simp
next
  case (2 us x)
  then show ?case by (cases ys) auto
next
  case (3 us x y zs)
  then show ?case by auto
qed

lemma linked_cong:
  "(\<And>x. x \<in> set (butlast xs) \<Longrightarrow> next (us' x) = next (us x)) \<Longrightarrow> linked us' xs = linked us xs"
  by (induction us xs rule: linked.induct) auto

lemma enqueueUpdate_frame:
  "fibers (enqueueUpdate f u h) = fibers h" "queues (enqueueUpdate f u h) = queues h"
  by (auto simp: enqueueUpdate_def write_next_def write_pending_def Let_def split: option.splits)

text \<open>One call of \<open>enqueueUpdate\<close> with an update that is not in the ring appends it.\<close>

lemma enqueueUpdate_ring:
  assumes q: "updateQueue (fibers h f) = Some q"
    and ring: "pendingRing h (shared (queues h q)) xs"
    and fresh: "u \<notin> set xs"
  shows "pendingRing (enqueueUpdate f u h) (shared (queues h q)) (xs @ [u])"
proof (cases "xs = []")
  case True
  with q ring show ?thesis
    by (simp add: pendingRing_def enqueueUpdate_def write_next_def write_pending_def Let_def)
next
  case False
  let ?p = "last xs"
  from False ring have d: "distinct xs"
    and p: "pending (shareds h (shared (queues h q))) = Some ?p"
    and l: "linked (updates h) (xs @ [hd xs])"
    by (simp_all add: pendingRing_def)
  from l False have lx: "linked (updates h) xs" and hdx: "next (updates h ?p) = Some (hd xs)"
    by (simp_all add: linked_append)
  let ?h' = "enqueueUpdate f u h"
  have up: "updates ?h' = ((updates h)(u := (updates h u)\<lparr>next := Some (hd xs)\<rparr>))
                (?p := (((updates h)(u := (updates h u)\<lparr>next := Some (hd xs)\<rparr>)) ?p)\<lparr>next := Some u\<rparr>)"
    using q p hdx by (simp add: enqueueUpdate_def write_next_def write_pending_def Let_def)
  have pu: "?p \<noteq> u" using fresh False by (metis last_in_set)
  have pend: "pending (shareds ?h' (shared (queues h q))) = Some u"
    using q p by (simp add: enqueueUpdate_def write_next_def write_pending_def Let_def)
  from d False have "distinct (butlast xs @ [?p])" by simp
  then have notin: "?p \<notin> set (butlast xs)" by simp
  have "linked (updates ?h') xs = linked (updates h) xs"
  proof (rule linked_cong)
    fix x assume x: "x \<in> set (butlast xs)"
    with notin have "x \<noteq> ?p" by auto
    moreover from x fresh have "x \<noteq> u" by (auto dest: in_set_butlastD)
    ultimately show "next (updates ?h' x) = next (updates h x)" by (simp add: up)
  qed
  with lx have 1: "linked (updates ?h') xs" by simp
  have 2: "next (updates ?h' ?p) = Some u" by (simp add: up)
  have 3: "next (updates ?h' u) = Some (hd xs)" using pu by (simp add: up)
  have "linked (updates ?h') (xs @ [u, hd xs])"
    using False 1 2 3 by (simp add: linked_append)
  then show ?thesis using False d fresh pend by (simp add: pendingRing_def)
qed

lemma enqueueUpdate_fold_ring:
  assumes "updateQueue (fibers h fiber) = Some q"
    and "pendingRing h (shared (queues h q)) xs"
    and "distinct (xs @ us)"
  shows "pendingRing (fold (enqueueUpdate fiber) us h) (shared (queues h q)) (xs @ us)"
  using assms
proof (induction us arbitrary: h xs)
  case Nil
  then show ?case by simp
next
  case (Cons u us)
  let ?h1 = "enqueueUpdate fiber u h"
  from Cons.prems have 1: "pendingRing ?h1 (shared (queues h q)) (xs @ [u])"
    by (intro enqueueUpdate_ring) auto
  have "pendingRing (fold (enqueueUpdate fiber) us ?h1) (shared (queues ?h1 q)) ((xs @ [u]) @ us)"
    using Cons.prems 1 by (intro Cons.IH) (auto simp: enqueueUpdate_frame)
  then show ?case by (simp add: enqueueUpdate_frame)
qed

text \<open>
  Claim C5: on a fiber with a queue whose pending ring holds the updates \<open>xs\<close> (none, when
  \<open>pending\<close> is \<open>null\<close>), a sequence of \<open>enqueueUpdate\<close> calls with updates \<open>us\<close>, each
  update another object and none of them in the ring, leaves the ring \<open>xs @ us\<close>:
  \<open>pending\<close> is the update appended last, its \<open>next\<close> is the oldest update, and the
  \<open>next\<close> links lead from the oldest update through all of them in insertion order.
\<close>

theorem enqueueUpdate_keeps_pending_ring:
  assumes "updateQueue (fibers h fiber) = Some q"
    and "pendingRing h (shared (queues h q)) xs"
    and "distinct (xs @ us)"
    and "us \<noteq> []"
  shows "pendingRing (fold (enqueueUpdate fiber) us h) (shared (queues h q)) (xs @ us)
       \<and> pending (shareds (fold (enqueueUpdate fiber) us h) (shared (queues h q))) = Some (last us)
       \<and> next (updates (fold (enqueueUpdate fiber) us h) (last us)) = Some (hd (xs @ us))
       \<and> linked (updates (fold (enqueueUpdate fiber) us h)) (xs @ us)"
proof -
  let ?h' = "fold (enqueueUpdate fiber) us h"
  have r: "pendingRing ?h' (shared (queues h q)) (xs @ us)"
    using assms(1-3) by (rule enqueueUpdate_fold_ring)
  with \<open>us \<noteq> []\<close> have p: "pending (shareds ?h' (shared (queues h q))) = Some (last us)"
    and l: "linked (updates ?h') ((xs @ us) @ [hd (xs @ us)])"
    by (simp_all add: pendingRing_def)
  from l \<open>us \<noteq> []\<close> have "linked (updates ?h') (xs @ us)"
    and "next (updates ?h' (last us)) = Some (hd (xs @ us))"
    using linked_append [of "xs @ us" "[hd (xs @ us)]" "updates ?h'"] by simp_all
  with r p show ?thesis by simp
qed

theorem enqueueUpdate_keeps_pending_ring_witness:
  "updateQueue (fibers heap_queue 0) = Some 0
   \<and> pendingRing heap_queue (shared (queues heap_queue 0)) []
   \<and> distinct ([] @ [1, 2, 3::nat]) \<and> [1, 2, 3::nat] \<noteq> []
   \<and> pending (shareds (fold (enqueueUpdate 0) [1, 2, 3] heap_queue) 0) = Some 3
   \<and> next (updates (fold (enqueueUpdate 0) [1, 2, 3] heap_queue) 3) = Some 1
   \<and> linked (updates (fold (enqueueUpdate 0) [1, 2, 3] heap_queue)) [1, 2, 3]"
proof -
  have a: "updateQueue (fibers heap_queue 0) = Some 0"
    and s: "shared (queues heap_queue 0) = 0"
    by (simp_all add: heap_queue_def initializeUpdateQueue_def)
  have b: "pendingRing heap_queue (shared (queues heap_queue 0)) []"
    by (simp add: pendingRing_def heap_queue_def initializeUpdateQueue_def)
  have c: "distinct ([] @ [1, 2, 3::nat])" and d: "[1, 2, 3::nat] \<noteq> []" by simp_all
  from enqueueUpdate_keeps_pending_ring [OF a b c d] a b s
  show ?thesis by simp
qed

section \<open>Properties of the work loop\<close>

lemmas sched_defs = write_root_def cancelCallback_def scheduleCallback_def scheduleSyncCallback_def
  scheduleMicrotask_def starvedLanesExpired_def rootUpdated_def rootFinished_def

lemmas example_defs = example_env_def state0_def root0_def fiber0_def heap0_def
  state_armed_def state_finished_def state_transition_def

lemma mergeLanes_idem: "mergeLanes (mergeLanes a l) l = mergeLanes a l"
  by (simp add: mergeLanes_def or.assoc)

lemma childLanesMarked_refl: "childLanesMarked l {} F F"
  by (simp add: childLanesMarked_def)

lemma childLanesMarked_trans:
  assumes "childLanesMarked l A F G" "childLanesMarked l B G H"
  shows "childLanesMarked l (A \<union> B) F H"
  unfolding childLanesMarked_def
proof (intro allI conjI impI)
  fix x
  from assms have g: "G x = (F x)\<lparr>childLanes := childLanes (G x)\<rparr>"
    and h: "H x = (G x)\<lparr>childLanes := childLanes (H x)\<rparr>"
    by (simp_all add: childLanesMarked_def)
  show "H x = (F x)\<lparr>childLanes := childLanes (H x)\<rparr>"
    by (subst h, subst g) simp
  from assms have g2: "childLanes (G x) = childLanes (F x) \<or> childLanes (G x) = mergeLanes (childLanes (F x)) l"
    and h2: "childLanes (H x) = childLanes (G x) \<or> childLanes (H x) = mergeLanes (childLanes (G x)) l"
    by (simp_all add: childLanesMarked_def)
  then show "childLanes (H x) = childLanes (F x) \<or> childLanes (H x) = mergeLanes (childLanes (F x)) l"
    by (auto simp: mergeLanes_idem)
  assume "x \<in> A \<union> B"
  moreover from assms have "x \<in> A \<Longrightarrow> childLanes (G x) = mergeLanes (childLanes (F x)) l"
    and "x \<in> B \<Longrightarrow> childLanes (H x) = mergeLanes (childLanes (G x)) l"
    by (simp_all add: childLanesMarked_def)
  ultimately show "childLanes (H x) = mergeLanes (childLanes (F x)) l"
    using g2 h2 by (auto simp: mergeLanes_idem)
qed

lemma childLanesMarked_step:
  "childLanesMarked l {p} (fibers s) (fibers (merge_childLanes_at p l s))"
  by (simp add: childLanesMarked_def merge_childLanes_at_def)

lemma childLanesMarked_weaken:
  "childLanesMarked l A F G \<Longrightarrow> B \<subseteq> A \<Longrightarrow> childLanesMarked l B F G"
  by (auto simp: childLanesMarked_def)

lemma childLanesMarked_return:
  "childLanesMarked l A F G \<Longrightarrow> return (G x) = return (F x)"
  by (metis (no_types, lifting) childLanesMarked_def Fiber.select_convs(5) Fiber.surjective Fiber.update_convs(3))

lemma returnPath_cong:
  "(\<And>x. return (G x) = return (F x)) \<Longrightarrow> returnPath G n ps = returnPath F n ps"
  by (induction ps arbitrary: n) auto

lemma merge_childLanes_at_frame: "merge_childLanes_at p l s = s\<lparr>fibers := fibers (merge_childLanes_at p l s)\<rparr>"
  by (simp add: merge_childLanes_at_def)

lemma bubbleChildLanes_path:
  assumes "returnPath (fibers s) n ps"
  shows "\<exists>F. bubbleChildLanes l n (return (fibers s n)) s = Some (last (n # ps), s\<lparr>fibers := F\<rparr>)
            \<and> childLanesMarked l (set ps) (fibers s) F"
  using assms
proof (induction ps arbitrary: n s)
  case Nil
  then have "bubbleChildLanes l n (return (fibers s n)) s = Some (n, s)"
    by (simp add: bubbleChildLanes.simps)
  then show ?case
    by (intro exI [of _ "fibers s"]) (simp add: childLanesMarked_refl)
next
  case (Cons p ps)
  define s1 where "s1 = merge_childLanes_at p l s"
  define s2 where "s2 = (case alternate (fibers s1 p) of None \<Rightarrow> s1 | Some a \<Rightarrow> merge_childLanes_at a l s1)"
  have m1: "childLanesMarked l {p} (fibers s) (fibers s1)"
    unfolding s1_def by (rule childLanesMarked_step)
  have m12: "childLanesMarked l {} (fibers s1) (fibers s2)"
    unfolding s2_def
    by (auto split: option.splits intro: childLanesMarked_refl
          childLanesMarked_weaken [OF childLanesMarked_step])
  from childLanesMarked_trans [OF m1 m12] have m2: "childLanesMarked l {p} (fibers s) (fibers s2)"
    by simp
  have fr: "s2 = s\<lparr>fibers := fibers s2\<rparr>"
    unfolding s2_def s1_def by (simp add: merge_childLanes_at_def split: option.splits)
  from Cons.prems have r: "return (fibers s n) = Some p" and rp: "returnPath (fibers s) p ps" by simp_all
  from rp have "returnPath (fibers s2) p ps"
    using returnPath_cong [of "fibers s2" "fibers s"] childLanesMarked_return [OF m2] by blast
  from Cons.IH [OF this] obtain F where
    b: "bubbleChildLanes l p (return (fibers s2 p)) s2 = Some (last (p # ps), s2\<lparr>fibers := F\<rparr>)"
    and m3: "childLanesMarked l (set ps) (fibers s2) F" by blast
  have "s2\<lparr>fibers := F\<rparr> = s\<lparr>fibers := F\<rparr>" by (subst fr) simp
  with b r have "bubbleChildLanes l n (return (fibers s n)) s = Some (last (n # p # ps), s\<lparr>fibers := F\<rparr>)"
    by (subst bubbleChildLanes.simps) (simp add: s1_def [symmetric] s2_def [symmetric] Let_def)
  moreover from childLanesMarked_trans [OF m2 m3] have "childLanesMarked l (set (p # ps)) (fibers s) F"
    by simp
  ultimately show ?case by blast
qed

lemma childLanesMarked_fields:
  assumes "childLanesMarked l A F G"
  shows "ftag (G x) = ftag (F x)" "lanes (G x) = lanes (F x)" "stateNode (G x) = stateNode (F x)"
    "alternate (G x) = alternate (F x)"
proof -
  from assms have e: "G x = (F x)\<lparr>childLanes := childLanes (G x)\<rparr>"
    by (simp add: childLanesMarked_def)
  show "ftag (G x) = ftag (F x)" using arg_cong [OF e, of ftag] by simp
  show "lanes (G x) = lanes (F x)" using arg_cong [OF e, of lanes] by simp
  show "stateNode (G x) = stateNode (F x)" using arg_cong [OF e, of stateNode] by simp
  show "alternate (G x) = alternate (F x)" using arg_cong [OF e, of alternate] by simp
qed

lemma childLanesMarked_must:
  "childLanesMarked l A F G \<Longrightarrow> x \<in> A \<Longrightarrow> childLanes (G x) = mergeLanes (childLanes (F x)) l"
  by (simp add: childLanesMarked_def)

lemma markUpdateLaneFromFiberToRoot_path:
  assumes "returnPath (fibers s) f ps"
  shows "\<exists>F. markUpdateLaneFromFiberToRoot env f l s
              = Some (if ftag (fibers s (last (f # ps))) = HostRoot env
                      then stateNode (fibers s (last (f # ps))) else None, s\<lparr>fibers := F\<rparr>)
            \<and> lanes (F f) = mergeLanes (lanes (fibers s f)) l
            \<and> (\<forall>p \<in> set ps. childLanes (F p) = mergeLanes (childLanes (fibers s p)) l)
            \<and> (\<forall>x. ftag (F x) = ftag (fibers s x) \<and> return (F x) = return (fibers s x)
                   \<and> stateNode (F x) = stateNode (fibers s x))"
proof -
  define s1 where "s1 = merge_lanes_at f l s"
  define s2 where "s2 = (case alternate (fibers s1 f) of None \<Rightarrow> s1 | Some a \<Rightarrow> merge_lanes_at a l s1)"
  have fr: "s2 = s\<lparr>fibers := fibers s2\<rparr>"
    unfolding s2_def s1_def by (simp add: merge_lanes_at_def split: option.splits)
  have same: "ftag (fibers s2 x) = ftag (fibers s x)" "return (fibers s2 x) = return (fibers s x)"
    "stateNode (fibers s2 x) = stateNode (fibers s x)" "childLanes (fibers s2 x) = childLanes (fibers s x)" for x
    unfolding s2_def s1_def by (simp_all add: merge_lanes_at_def split: option.splits)
  have lf: "lanes (fibers s2 f) = mergeLanes (lanes (fibers s f)) l"
    unfolding s2_def s1_def by (simp add: merge_lanes_at_def mergeLanes_idem split: option.splits)
  from assms have "returnPath (fibers s2) f ps"
    using returnPath_cong [of "fibers s2" "fibers s"] same(2) by blast
  from bubbleChildLanes_path [OF this] obtain F where
    b: "bubbleChildLanes l f (return (fibers s2 f)) s2 = Some (last (f # ps), s2\<lparr>fibers := F\<rparr>)"
    and m: "childLanesMarked l (set ps) (fibers s2) F" by blast
  have eq: "s2\<lparr>fibers := F\<rparr> = s\<lparr>fibers := F\<rparr>" by (subst fr) simp
  have "markUpdateLaneFromFiberToRoot env f l s
          = Some (if ftag (F (last (f # ps))) = HostRoot env then stateNode (F (last (f # ps))) else None,
                  s\<lparr>fibers := F\<rparr>)"
    using b unfolding eq
    by (simp add: markUpdateLaneFromFiberToRoot_def s1_def [symmetric] s2_def [symmetric] Let_def)
  moreover have "ftag (F x) = ftag (fibers s x)" "stateNode (F x) = stateNode (fibers s x)"
    "return (F x) = return (fibers s x)" for x
    using childLanesMarked_fields [OF m, of x] childLanesMarked_return [OF m, of x] same by simp_all
  moreover have "lanes (F f) = mergeLanes (lanes (fibers s f)) l"
    using childLanesMarked_fields(2) [OF m, of f] lf by simp
  moreover have "\<forall>p \<in> set ps. childLanes (F p) = mergeLanes (childLanes (fibers s p)) l"
    using childLanesMarked_must [OF m] same(4) by simp
  ultimately show ?thesis by (intro exI [of _ F]) simp
qed

text \<open>
  Claim C10: for a fiber whose chain of \<open>return\<close> links ends at a fiber whose tag is not
  \<open>HostRoot\<close>, \<open>scheduleUpdateOnFiber\<close> returns \<open>null\<close>; no root is changed
  (\<open>markRootUpdated\<close> is not reached) and no scheduler call is made
  (\<open>ensureRootIsScheduled\<close> is not reached), nothing but fibers being written, while the
  lane has been merged into the \<open>lanes\<close> of the source fiber and into the \<open>childLanes\<close>
  of each of its ancestors.
\<close>

theorem scheduleUpdateOnFiber_without_host_root:
  assumes "returnPath (fibers s) fiber ps"
    and "ftag (fibers s (last (fiber # ps))) \<noteq> HostRoot env"
  shows "\<exists>s'. scheduleUpdateOnFiber env fiber l evTime s = Some (ReturnsNull, s')
            \<and> s' = s\<lparr>fibers := fibers s'\<rparr>
            \<and> roots s' = roots s \<and> scheduled s' = scheduled s \<and> nextCallback s' = nextCallback s
            \<and> lanes (fibers s' fiber) = mergeLanes (lanes (fibers s fiber)) l
            \<and> (\<forall>p \<in> set ps. childLanes (fibers s' p) = mergeLanes (childLanes (fibers s p)) l)"
proof -
  from markUpdateLaneFromFiberToRoot_path [OF assms(1), of env l] assms(2) obtain F where
    m: "markUpdateLaneFromFiberToRoot env fiber l s = Some (None, s\<lparr>fibers := F\<rparr>)"
    and lf: "lanes (F fiber) = mergeLanes (lanes (fibers s fiber)) l"
    and cl: "\<forall>p \<in> set ps. childLanes (F p) = mergeLanes (childLanes (fibers s p)) l"
    by auto
  from m have "scheduleUpdateOnFiber env fiber l evTime s = Some (ReturnsNull, s\<lparr>fibers := F\<rparr>)"
    by (simp add: scheduleUpdateOnFiber_def)
  with lf cl show ?thesis by simp
qed

theorem scheduleUpdateOnFiber_without_host_root_witness:
  "returnPath (fibers state0) 5 [4] \<and> ftag (fibers state0 (last [5, 4])) \<noteq> HostRoot example_env
   \<and> (\<exists>s'. scheduleUpdateOnFiber example_env 5 16 0 state0 = Some (ReturnsNull, s')
         \<and> roots s' = roots state0 \<and> scheduled s' = [] \<and> nextCallback s' = 0
         \<and> lanes (fibers s' 5) = 16 \<and> childLanes (fibers s' 4) = 16)"
proof -
  have a: "returnPath (fibers state0) 5 [4]"
    and b: "ftag (fibers state0 (last (5 # [4]))) \<noteq> HostRoot example_env"
    by (simp_all add: example_defs)
  have c: "roots state0 = roots state0" "scheduled state0 = []" "nextCallback state0 = 0"
    "lanes (fibers state0 5) = 0" "childLanes (fibers state0 4) = 0"
    by (simp_all add: example_defs)
  from scheduleUpdateOnFiber_without_host_root [OF a b, of 16 0] c
  obtain s' where "scheduleUpdateOnFiber example_env 5 16 0 state0 = Some (ReturnsNull, s')"
    "roots s' = roots state0" "scheduled s' = []" "nextCallback s' = 0"
    "lanes (fibers s' 5) = 16" "childLanes (fibers s' 4) = 16"
    by (auto simp: mergeLanes_def)
  with a b show ?thesis by simp
qed

text \<open>
  Claim C8: when the computed \<open>nextLanes\<close> is \<open>NoLanes\<close>, \<open>ensureRootIsScheduled\<close>
  cancels the armed callback if there is one, sets \<open>callbackNode\<close> to \<open>null\<close> and
  \<open>callbackPriority\<close> to \<open>NoLane\<close>, and does nothing else: no callback is armed, and
  the work-in-progress pointers and the fibers are as before.
\<close>

theorem ensureRootIsScheduled_no_lanes:
  assumes "nextLanesOf env root (starvedLanesExpired env root evTime s) = NoLanes"
  shows "callbackNode (roots (ensureRootIsScheduled env root evTime s) root) = None
       \<and> callbackPriority (roots (ensureRootIsScheduled env root evTime s) root) = NoLane
       \<and> scheduled (ensureRootIsScheduled env root evTime s)
           = scheduled s @ (case callbackNode (roots s root) of
                              None \<Rightarrow> [] | Some node \<Rightarrow> [CancelCallback node])
       \<and> nextCallback (ensureRootIsScheduled env root evTime s) = nextCallback s
       \<and> workInProgress (ensureRootIsScheduled env root evTime s) = workInProgress s
       \<and> workInProgressRoot (ensureRootIsScheduled env root evTime s) = workInProgressRoot s
       \<and> fibers (ensureRootIsScheduled env root evTime s) = fibers s"
  using assms
  by (simp add: ensureRootIsScheduled_def Let_def split: option.splits)
     (simp add: sched_defs)

theorem ensureRootIsScheduled_no_lanes_witness:
  "nextLanesOf example_env 0 (starvedLanesExpired example_env 0 5 (state_armed 0)) = NoLanes
   \<and> callbackNode (roots (state_armed 0) 0) = Some 7
   \<and> callbackNode (roots (ensureRootIsScheduled example_env 0 5 (state_armed 0)) 0) = None
   \<and> callbackPriority (roots (ensureRootIsScheduled example_env 0 5 (state_armed 0)) 0) = NoLane
   \<and> scheduled (ensureRootIsScheduled example_env 0 5 (state_armed 0)) = [CancelCallback 7]"
proof -
  have a: "nextLanesOf example_env 0 (starvedLanesExpired example_env 0 5 (state_armed 0)) = NoLanes"
    by (simp add: nextLanesOf_def renderLanesOf_def sched_defs example_defs getHighestPriorityLane_def NoLanes_def)
  have b: "callbackNode (roots (state_armed 0) 0) = Some 7" "scheduled (state_armed 0) = []"
    by (simp_all add: example_defs)
  from ensureRootIsScheduled_no_lanes [OF a] a b show ?thesis by simp
qed

text \<open>
  Claim C7: with \<open>finishedWork\<close> non-null, \<open>commitRootImpl\<close> hands to
  \<open>commitMutationEffects\<close> a state \<open>s4\<close> in which \<open>finishedWork\<close>, \<open>finishedLanes\<close>,
  the callback slot and the module-level work-in-progress pointers are cleared, the root's
  bookkeeping is \<open>markRootFinished\<close> of the bitwise OR of the finished fiber's \<open>lanes\<close>
  and \<open>childLanes\<close>, and \<open>current\<close> is still the old tree; its result is the state that
  \<open>commitMutationEffects\<close> returns with the one write \<open>current := finishedWork\<close>.
\<close>

theorem commitRootImpl_steps:
  assumes "finishedWork (roots s root) = Some fw"
  shows "\<exists>s4. commitRootImpl env root s
           = write_root root (\<lambda>r. r\<lparr>current := fw\<rparr>) (commitMutationEffects env root fw s4)
       \<and> finishedWork (roots s4 root) = None \<and> finishedLanes (roots s4 root) = NoLanes
       \<and> callbackNode (roots s4 root) = None \<and> callbackPriority (roots s4 root) = NoLane
       \<and> laneState (roots s4 root)
           = markRootFinished env (laneState (roots s root))
               (lanes (fibers s fw) OR childLanes (fibers s fw))
       \<and> workInProgressRoot s4 = None \<and> workInProgress s4 = None
       \<and> current (roots s4 root) = current (roots s root)
       \<and> fibers s4 = fibers s \<and> scheduled s4 = scheduled s"
proof -
  let ?s4 = "(rootFinished env root (mergeLanes (lanes (fibers s fw)) (childLanes (fibers s fw)))
                (write_root root (\<lambda>r. r\<lparr>callbackNode := None, callbackPriority := NoLane\<rparr>)
                  (write_root root (\<lambda>r. r\<lparr>finishedWork := None, finishedLanes := NoLanes\<rparr>) s)))
              \<lparr>workInProgressRoot := None, workInProgress := None\<rparr>"
  have "commitRootImpl env root s
          = write_root root (\<lambda>r. r\<lparr>current := fw\<rparr>) (commitMutationEffects env root fw ?s4)"
    using assms by (simp add: commitRootImpl_def Let_def sched_defs)
  moreover have "finishedWork (roots ?s4 root) = None" "finishedLanes (roots ?s4 root) = NoLanes"
    "callbackNode (roots ?s4 root) = None" "callbackPriority (roots ?s4 root) = NoLane"
    "laneState (roots ?s4 root)
           = markRootFinished env (laneState (roots s root))
               (lanes (fibers s fw) OR childLanes (fibers s fw))"
    "workInProgressRoot ?s4 = None" "workInProgress ?s4 = None"
    "current (roots ?s4 root) = current (roots s root)"
    "fibers ?s4 = fibers s" "scheduled ?s4 = scheduled s"
    by (simp_all add: sched_defs mergeLanes_def)
  ultimately show ?thesis by blast
qed

theorem commitRootImpl_steps_witness:
  "finishedWork (roots state_finished 0) = Some 3
   \<and> current (roots state_finished 0) = 0
   \<and> (\<exists>s4. commitRootImpl example_env 0 state_finished
            = write_root 0 (\<lambda>r. r\<lparr>current := 3\<rparr>) (commitMutationEffects example_env 0 3 s4)
          \<and> callbackNode (roots s4 0) = None \<and> callbackPriority (roots s4 0) = NoLane
          \<and> laneState (roots s4 0) = 16
          \<and> workInProgressRoot s4 = None \<and> workInProgress s4 = None
          \<and> current (roots s4 0) = 0)
   \<and> current (roots (commitRootImpl example_env 0 state_finished) 0) = 3"
proof -
  have a: "finishedWork (roots state_finished 0) = Some 3"
    and b: "current (roots state_finished 0) = 0"
      "markRootFinished example_env (laneState (roots state_finished 0))
         (lanes (fibers state_finished 3) OR childLanes (fibers state_finished 3)) = 16"
    by (simp_all add: example_defs)
  from commitRootImpl_steps [OF a, of example_env] obtain s4 where
    c: "commitRootImpl example_env 0 state_finished
          = write_root 0 (\<lambda>r. r\<lparr>current := 3\<rparr>) (commitMutationEffects example_env 0 3 s4)"
    and d: "callbackNode (roots s4 0) = None" "callbackPriority (roots s4 0) = NoLane"
      "laneState (roots s4 0) = 16" "workInProgressRoot s4 = None" "workInProgress s4 = None"
      "current (roots s4 0) = 0"
    using b by auto
  have "current (roots (commitRootImpl example_env 0 state_finished) 0) = 3"
    unfolding c by (simp add: write_root_def)
  with a b c d show ?thesis by blast
qed

lemma ensureRootIsScheduled_same_priority:
  assumes "nextLanesOf env root (starvedLanesExpired env root evTime s) \<noteq> NoLanes
           \<or> callbackNode (roots s root) = None"
    and "getHighestPriorityLane (nextLanesOf env root (starvedLanesExpired env root evTime s))
         = callbackPriority (roots s root)"
  shows "callbackNode (roots (ensureRootIsScheduled env root evTime s) root) = callbackNode (roots s root)
       \<and> callbackPriority (roots (ensureRootIsScheduled env root evTime s) root) = callbackPriority (roots s root)
       \<and> scheduled (ensureRootIsScheduled env root evTime s) = scheduled s
       \<and> nextCallback (ensureRootIsScheduled env root evTime s) = nextCallback s"
proof (cases "nextLanesOf env root (starvedLanesExpired env root evTime s) = NoLanes")
  case True
  with assms have "callbackNode (roots s root) = None" "callbackPriority (roots s root) = NoLane"
    by (auto simp: getHighestPriorityLane_def NoLanes_def NoLane_def)
  with True show ?thesis
    by (simp add: ensureRootIsScheduled_def Let_def split: option.splits) (simp add: sched_defs)
next
  case False
  have "callbackPriority (roots (starvedLanesExpired env root evTime s) root) = callbackPriority (roots s root)"
    by (simp add: sched_defs)
  with False assms(2) show ?thesis
    by (simp add: ensureRootIsScheduled_def Let_def split: option.splits) (simp add: sched_defs)
qed

lemma nextLanesOf_after_update:
  "nextLanesOf env root (starvedLanesExpired env root evTime (rootUpdated env root l evTime s))
   = getNextLanes env (laneStateAfterUpdate env (laneState (roots s root)) l evTime) (renderLanesOf root s)"
  by (simp add: nextLanesOf_def renderLanesOf_def laneStateAfterUpdate_def sched_defs)

lemma renderLanesOf_fibers: "renderLanesOf root (s\<lparr>fibers := F\<rparr>) = renderLanesOf root s"
  by (simp add: renderLanesOf_def)

lemma ensureRootIsScheduled_arms:
  assumes "nextLanesOf env root (starvedLanesExpired env root evTime s) \<noteq> NoLanes"
    and "callbackPriority (roots s root)
         \<noteq> getHighestPriorityLane (nextLanesOf env root (starvedLanesExpired env root evTime s))"
  shows "armedCount (scheduled (ensureRootIsScheduled env root evTime s)) = Suc (armedCount (scheduled s))"
    and "callbackPriority (roots (ensureRootIsScheduled env root evTime s) root)
         = getHighestPriorityLane (nextLanesOf env root (starvedLanesExpired env root evTime s))"
    and "laneState (roots (ensureRootIsScheduled env root evTime s) root)
         = markStarvedLanesAsExpired env (laneState (roots s root)) evTime"
    and "fibers (ensureRootIsScheduled env root evTime s) = fibers s"
    and "renderLanesOf root (ensureRootIsScheduled env root evTime s) = renderLanesOf root s"
proof -
  have p: "callbackPriority (roots (starvedLanesExpired env root evTime s) root) = callbackPriority (roots s root)"
    by (simp add: sched_defs)
  show "armedCount (scheduled (ensureRootIsScheduled env root evTime s)) = Suc (armedCount (scheduled s))"
    using assms p
    by (simp add: ensureRootIsScheduled_def Let_def split: option.splits prod.splits)
       (simp add: sched_defs armedCount_def)
  show "callbackPriority (roots (ensureRootIsScheduled env root evTime s) root)
         = getHighestPriorityLane (nextLanesOf env root (starvedLanesExpired env root evTime s))"
    using assms p
    by (simp add: ensureRootIsScheduled_def Let_def split: option.splits prod.splits)
       (simp add: sched_defs)
  show "laneState (roots (ensureRootIsScheduled env root evTime s) root)
         = markStarvedLanesAsExpired env (laneState (roots s root)) evTime"
    using assms p
    by (simp add: ensureRootIsScheduled_def Let_def split: option.splits prod.splits)
       (simp add: sched_defs)
  show "fibers (ensureRootIsScheduled env root evTime s) = fibers s"
    using assms p
    by (simp add: ensureRootIsScheduled_def Let_def split: option.splits prod.splits)
       (simp add: sched_defs)
  show "renderLanesOf root (ensureRootIsScheduled env root evTime s) = renderLanesOf root s"
    using assms p
    by (simp add: ensureRootIsScheduled_def Let_def split: option.splits prod.splits)
       (simp add: sched_defs renderLanesOf_def)
qed

lemma scheduleUpdateOnFiber_reaches_root:
  assumes "returnPath (fibers s) f ps"
    and "ftag (fibers s (last (f # ps))) = HostRoot env"
    and "stateNode (fibers s (last (f # ps))) = Some root"
  shows "\<exists>F. scheduleUpdateOnFiber env f l evTime s
              = Some (ReturnsUndefined,
                      ensureRootIsScheduled env root evTime (rootUpdated env root l evTime (s\<lparr>fibers := F\<rparr>)))
            \<and> (\<forall>x. ftag (F x) = ftag (fibers s x) \<and> return (F x) = return (fibers s x)
                   \<and> stateNode (F x) = stateNode (fibers s x))"
proof -
  from markUpdateLaneFromFiberToRoot_path [OF assms(1), of env l] assms(2,3) obtain F where
    m: "markUpdateLaneFromFiberToRoot env f l s = Some (Some root, s\<lparr>fibers := F\<rparr>)"
    and sh: "\<forall>x. ftag (F x) = ftag (fibers s x) \<and> return (F x) = return (fibers s x)
                   \<and> stateNode (F x) = stateNode (fibers s x)"
    by auto
  from m have "scheduleUpdateOnFiber env f l evTime s
              = Some (ReturnsUndefined,
                      ensureRootIsScheduled env root evTime (rootUpdated env root l evTime (s\<lparr>fibers := F\<rparr>)))"
    by (simp add: scheduleUpdateOnFiber_def Let_def)
  with sh show ?thesis by blast
qed

lemma scheduleUpdateOnFiber_twice:
  assumes p1: "returnPath (fibers s) f1 ps1"
    and h1: "ftag (fibers s (last (f1 # ps1))) = HostRoot env"
    and r1: "stateNode (fibers s (last (f1 # ps1))) = Some root"
    and p2: "returnPath (fibers s) f2 ps2"
    and h2: "ftag (fibers s (last (f2 # ps2))) = HostRoot env"
    and r2: "stateNode (fibers s (last (f2 # ps2))) = Some root"
    and n1: "getNextLanes env (laneStateAfterUpdate env (laneState (roots s root)) l t1)
               (renderLanesOf root s) \<noteq> NoLanes"
    and first: "callbackPriority (roots s root)
                \<noteq> getHighestPriorityLane
                    (getNextLanes env (laneStateAfterUpdate env (laneState (roots s root)) l t1)
                       (renderLanesOf root s))"
    and n2: "getNextLanes env
               (laneStateAfterUpdate env (laneStateAfterUpdate env (laneState (roots s root)) l t1) l t2)
               (renderLanesOf root s) \<noteq> NoLanes"
    and same: "getHighestPriorityLane
                 (getNextLanes env
                    (laneStateAfterUpdate env (laneStateAfterUpdate env (laneState (roots s root)) l t1) l t2)
                    (renderLanesOf root s))
               = getHighestPriorityLane
                   (getNextLanes env (laneStateAfterUpdate env (laneState (roots s root)) l t1)
                      (renderLanesOf root s))"
  shows "\<exists>s1 s2. scheduleUpdateOnFiber env f1 l t1 s = Some (ReturnsUndefined, s1)
           \<and> scheduleUpdateOnFiber env f2 l t2 s1 = Some (ReturnsUndefined, s2)
           \<and> armedCount (scheduled s1) = Suc (armedCount (scheduled s))
           \<and> scheduled s2 = scheduled s1
           \<and> armedCount (scheduled s2) = Suc (armedCount (scheduled s))
           \<and> callbackNode (roots s2 root) = callbackNode (roots s1 root)
           \<and> callbackPriority (roots s2 root) = callbackPriority (roots s1 root)"
proof -
  let ?L1 = "laneStateAfterUpdate env (laneState (roots s root)) l t1"
  let ?w = "renderLanesOf root s"
  from scheduleUpdateOnFiber_reaches_root [OF p1 h1 r1, of l t1] obtain F where
    c1: "scheduleUpdateOnFiber env f1 l t1 s
           = Some (ReturnsUndefined,
                   ensureRootIsScheduled env root t1 (rootUpdated env root l t1 (s\<lparr>fibers := F\<rparr>)))"
    and sh: "\<And>x. ftag (F x) = ftag (fibers s x)" "\<And>x. return (F x) = return (fibers s x)"
      "\<And>x. stateNode (F x) = stateNode (fibers s x)"
    by blast
  define sa where "sa = rootUpdated env root l t1 (s\<lparr>fibers := F\<rparr>)"
  define s1 where "s1 = ensureRootIsScheduled env root t1 sa"
  have nl1: "nextLanesOf env root (starvedLanesExpired env root t1 sa) = getNextLanes env ?L1 ?w"
    unfolding sa_def by (simp add: nextLanesOf_after_update renderLanesOf_fibers)
  have cp: "callbackPriority (roots sa root) = callbackPriority (roots s root)"
    and ls: "laneState (roots sa root) = markRootUpdated env (laneState (roots s root)) l t1"
    and sc: "scheduled sa = scheduled s" and fa: "fibers sa = F"
    and wa: "renderLanesOf root sa = ?w"
    unfolding sa_def by (simp_all add: sched_defs renderLanesOf_def)
  from n1 nl1 have a1: "nextLanesOf env root (starvedLanesExpired env root t1 sa) \<noteq> NoLanes" by simp
  from first nl1 cp have a2: "callbackPriority (roots sa root)
      \<noteq> getHighestPriorityLane (nextLanesOf env root (starvedLanesExpired env root t1 sa))" by simp
  note arm = ensureRootIsScheduled_arms [OF a1 a2, folded s1_def]
  from arm(1) sc have cnt: "armedCount (scheduled s1) = Suc (armedCount (scheduled s))" by simp
  from arm(2) nl1 have cp1: "callbackPriority (roots s1 root) = getHighestPriorityLane (getNextLanes env ?L1 ?w)"
    by simp
  from arm(3) ls have ls1: "laneState (roots s1 root) = ?L1" by (simp add: laneStateAfterUpdate_def)
  from arm(4) fa have f1: "fibers s1 = F" by simp
  from arm(5) wa have w1: "renderLanesOf root s1 = ?w" by simp
  from p2 have p2': "returnPath (fibers s1) f2 ps2"
    using returnPath_cong [of "fibers s1" "fibers s"] sh(2) f1 by simp
  from h2 r2 have h2': "ftag (fibers s1 (last (f2 # ps2))) = HostRoot env"
    and r2': "stateNode (fibers s1 (last (f2 # ps2))) = Some root"
    using sh f1 by simp_all
  from scheduleUpdateOnFiber_reaches_root [OF p2' h2' r2', of l t2] obtain G where
    c2: "scheduleUpdateOnFiber env f2 l t2 s1
           = Some (ReturnsUndefined,
                   ensureRootIsScheduled env root t2 (rootUpdated env root l t2 (s1\<lparr>fibers := G\<rparr>)))"
    by blast
  define sb where "sb = rootUpdated env root l t2 (s1\<lparr>fibers := G\<rparr>)"
  define s2 where "s2 = ensureRootIsScheduled env root t2 sb"
  have nl2: "nextLanesOf env root (starvedLanesExpired env root t2 sb)
             = getNextLanes env (laneStateAfterUpdate env ?L1 l t2) ?w"
    unfolding sb_def by (simp add: nextLanesOf_after_update renderLanesOf_fibers ls1 w1)
  have cpb: "callbackPriority (roots sb root) = callbackPriority (roots s1 root)"
    and cnb: "callbackNode (roots sb root) = callbackNode (roots s1 root)"
    and scb: "scheduled sb = scheduled s1"
    unfolding sb_def by (simp_all add: sched_defs)
  from n2 nl2 have b1: "nextLanesOf env root (starvedLanesExpired env root t2 sb) \<noteq> NoLanes
      \<or> callbackNode (roots sb root) = None" by simp
  from same nl2 cp1 cpb have b2: "getHighestPriorityLane (nextLanesOf env root (starvedLanesExpired env root t2 sb))
      = callbackPriority (roots sb root)" by simp
  from ensureRootIsScheduled_same_priority [OF b1 b2, folded s2_def] cpb cnb scb
  have keep: "callbackNode (roots s2 root) = callbackNode (roots s1 root)"
    "callbackPriority (roots s2 root) = callbackPriority (roots s1 root)"
    "scheduled s2 = scheduled s1" by simp_all
  from c1 c2 cnt keep show ?thesis
    unfolding sa_def [symmetric] s1_def [symmetric] sb_def [symmetric] s2_def [symmetric]
    by (intro exI [of _ s1] exI [of _ s2]) simp
qed

text \<open>
  Claim C6, in two parts. First: when the highest-priority lane of the computed
  \<open>nextLanes\<close> equals the recorded \<open>callbackPriority\<close>, \<open>ensureRootIsScheduled\<close> makes no
  scheduler call, neither a cancellation nor an arming, and leaves \<open>callbackNode\<close> and
  \<open>callbackPriority\<close> as they are. The comparison is the one the function makes, with
  \<open>nextLanes\<close> non-empty; for empty \<open>nextLanes\<close> the same holds when no callback is armed,
  as is the case whenever the recorded priority is \<open>NoLane\<close> and the slot was written by
  this function or by the commit, which write both fields together. Second: two \<open>scheduleUpdateOnFiber\<close> calls with the same lane, on fibers \<open>fa\<close> and
  \<open>fb\<close> whose chains of \<open>return\<close> links end at host root fibers of the same root, with
  no render pass in between, arm exactly one callback, provided that the lane model selects
  non-empty lanes of the same highest priority in both calls and that this priority is not
  the one recorded before the first call.
\<close>

theorem ensureRootIsScheduled_coalesces_equal_priority:
  "((nextLanesOf env root (starvedLanesExpired env root evTime s) \<noteq> NoLanes
       \<or> callbackNode (roots s root) = None)
     \<and> getHighestPriorityLane (nextLanesOf env root (starvedLanesExpired env root evTime s))
         = callbackPriority (roots s root)
     \<longrightarrow> callbackNode (roots (ensureRootIsScheduled env root evTime s) root) = callbackNode (roots s root)
       \<and> callbackPriority (roots (ensureRootIsScheduled env root evTime s) root)
           = callbackPriority (roots s root)
       \<and> scheduled (ensureRootIsScheduled env root evTime s) = scheduled s
       \<and> nextCallback (ensureRootIsScheduled env root evTime s) = nextCallback s)
   \<and> (returnPath (fibers st) fa pas
       \<and> ftag (fibers st (last (fa # pas))) = HostRoot env
       \<and> stateNode (fibers st (last (fa # pas))) = Some root
       \<and> returnPath (fibers st) fb pbs
       \<and> ftag (fibers st (last (fb # pbs))) = HostRoot env
       \<and> stateNode (fibers st (last (fb # pbs))) = Some root
       \<and> getNextLanes env (laneStateAfterUpdate env (laneState (roots st root)) l ta)
            (renderLanesOf root st) \<noteq> NoLanes
       \<and> callbackPriority (roots st root)
            \<noteq> getHighestPriorityLane
                (getNextLanes env (laneStateAfterUpdate env (laneState (roots st root)) l ta)
                   (renderLanesOf root st))
       \<and> getNextLanes env
            (laneStateAfterUpdate env (laneStateAfterUpdate env (laneState (roots st root)) l ta) l tb)
            (renderLanesOf root st) \<noteq> NoLanes
       \<and> getHighestPriorityLane
            (getNextLanes env
               (laneStateAfterUpdate env (laneStateAfterUpdate env (laneState (roots st root)) l ta) l tb)
               (renderLanesOf root st))
          = getHighestPriorityLane
              (getNextLanes env (laneStateAfterUpdate env (laneState (roots st root)) l ta)
                 (renderLanesOf root st))
     \<longrightarrow> (\<exists>s1 s2. scheduleUpdateOnFiber env fa l ta st = Some (ReturnsUndefined, s1)
           \<and> scheduleUpdateOnFiber env fb l tb s1 = Some (ReturnsUndefined, s2)
           \<and> armedCount (scheduled s1) = Suc (armedCount (scheduled st))
           \<and> scheduled s2 = scheduled s1
           \<and> armedCount (scheduled s2) = Suc (armedCount (scheduled st))
           \<and> callbackNode (roots s2 root) = callbackNode (roots s1 root)
           \<and> callbackPriority (roots s2 root) = callbackPriority (roots s1 root)))"
proof (intro conjI impI)
  assume a: "(nextLanesOf env root (starvedLanesExpired env root evTime s) \<noteq> NoLanes
       \<or> callbackNode (roots s root) = None)
     \<and> getHighestPriorityLane (nextLanesOf env root (starvedLanesExpired env root evTime s))
         = callbackPriority (roots s root)"
  from ensureRootIsScheduled_same_priority [OF conjunct1 [OF a] conjunct2 [OF a]]
  show "callbackNode (roots (ensureRootIsScheduled env root evTime s) root) = callbackNode (roots s root)"
    and "callbackPriority (roots (ensureRootIsScheduled env root evTime s) root)
           = callbackPriority (roots s root)"
    and "scheduled (ensureRootIsScheduled env root evTime s) = scheduled s"
    and "nextCallback (ensureRootIsScheduled env root evTime s) = nextCallback s"
    by simp_all
next
  assume b: "returnPath (fibers st) fa pas
       \<and> ftag (fibers st (last (fa # pas))) = HostRoot env
       \<and> stateNode (fibers st (last (fa # pas))) = Some root
       \<and> returnPath (fibers st) fb pbs
       \<and> ftag (fibers st (last (fb # pbs))) = HostRoot env
       \<and> stateNode (fibers st (last (fb # pbs))) = Some root
       \<and> getNextLanes env (laneStateAfterUpdate env (laneState (roots st root)) l ta)
            (renderLanesOf root st) \<noteq> NoLanes
       \<and> callbackPriority (roots st root)
            \<noteq> getHighestPriorityLane
                (getNextLanes env (laneStateAfterUpdate env (laneState (roots st root)) l ta)
                   (renderLanesOf root st))
       \<and> getNextLanes env
            (laneStateAfterUpdate env (laneStateAfterUpdate env (laneState (roots st root)) l ta) l tb)
            (renderLanesOf root st) \<noteq> NoLanes
       \<and> getHighestPriorityLane
            (getNextLanes env
               (laneStateAfterUpdate env (laneStateAfterUpdate env (laneState (roots st root)) l ta) l tb)
               (renderLanesOf root st))
          = getHighestPriorityLane
              (getNextLanes env (laneStateAfterUpdate env (laneState (roots st root)) l ta)
                 (renderLanesOf root st))"
  then show "\<exists>s1 s2. scheduleUpdateOnFiber env fa l ta st = Some (ReturnsUndefined, s1)
           \<and> scheduleUpdateOnFiber env fb l tb s1 = Some (ReturnsUndefined, s2)
           \<and> armedCount (scheduled s1) = Suc (armedCount (scheduled st))
           \<and> scheduled s2 = scheduled s1
           \<and> armedCount (scheduled s2) = Suc (armedCount (scheduled st))
           \<and> callbackNode (roots s2 root) = callbackNode (roots s1 root)
           \<and> callbackPriority (roots s2 root) = callbackPriority (roots s1 root)"
    by (elim conjE) (rule scheduleUpdateOnFiber_twice)
qed

theorem ensureRootIsScheduled_coalesces_equal_priority_witness:
  "nextLanesOf example_env 0 (starvedLanesExpired example_env 0 5 (state_armed 16)) = 16
   \<and> callbackPriority (roots (state_armed 16) 0) = 16
   \<and> callbackNode (roots (ensureRootIsScheduled example_env 0 5 (state_armed 16)) 0) = Some 7
   \<and> callbackPriority (roots (ensureRootIsScheduled example_env 0 5 (state_armed 16)) 0) = 16
   \<and> scheduled (ensureRootIsScheduled example_env 0 5 (state_armed 16)) = []
   \<and> returnPath (fibers state0) 2 [1, 0] \<and> returnPath (fibers state0) 1 [0]
   \<and> ftag (fibers state0 0) = HostRoot example_env \<and> stateNode (fibers state0 0) = Some 0
   \<and> callbackPriority (roots state0 0) = 0
   \<and> getNextLanes example_env (laneStateAfterUpdate example_env (laneState (roots state0 0)) 16 5)
        (renderLanesOf 0 state0) = 16
   \<and> getNextLanes example_env
        (laneStateAfterUpdate example_env
           (laneStateAfterUpdate example_env (laneState (roots state0 0)) 16 5) 16 6)
        (renderLanesOf 0 state0) = 16
   \<and> (\<exists>s1 s2. scheduleUpdateOnFiber example_env 2 16 5 state0 = Some (ReturnsUndefined, s1)
          \<and> scheduleUpdateOnFiber example_env 1 16 6 s1 = Some (ReturnsUndefined, s2)
          \<and> scheduled s2 = scheduled s1 \<and> armedCount (scheduled s2) = 1)"
proof -
  have a: "nextLanesOf example_env 0 (starvedLanesExpired example_env 0 5 (state_armed 16)) = 16"
    and b: "callbackPriority (roots (state_armed 16) 0) = 16"
      "callbackNode (roots (state_armed 16) 0) = Some 7" "scheduled (state_armed 16) = []"
    by (simp_all add: nextLanesOf_def renderLanesOf_def sched_defs example_defs
        getHighestPriorityLane_def NoLanes_def)
  have h: "getHighestPriorityLane (16 :: Lanes) = 16" by (simp add: getHighestPriorityLane_def)
  have c: "returnPath (fibers state0) 2 [1, 0]" "returnPath (fibers state0) 1 [0]"
    "ftag (fibers state0 0) = HostRoot example_env" "stateNode (fibers state0 0) = Some 0"
    "callbackPriority (roots state0 0) = 0" "scheduled state0 = []"
    by (simp_all add: example_defs)
  have d: "getNextLanes example_env (laneStateAfterUpdate example_env (laneState (roots state0 0)) 16 5)
        (renderLanesOf 0 state0) = 16"
    "getNextLanes example_env
        (laneStateAfterUpdate example_env
           (laneStateAfterUpdate example_env (laneState (roots state0 0)) 16 5) 16 6)
        (renderLanesOf 0 state0) = 16"
    by (simp_all add: laneStateAfterUpdate_def renderLanesOf_def example_defs
        getHighestPriorityLane_def NoLanes_def)
  note inst = ensureRootIsScheduled_coalesces_equal_priority
    [where env = example_env and root = 0 and evTime = 5 and s = "state_armed 16"
       and st = state0 and fa = 2 and pas = "[1, 0]" and fb = 1 and pbs = "[0]"
       and l = 16 and ta = 5 and tb = 6]
  from conjunct1 [OF inst] a b h
  have 1: "callbackNode (roots (ensureRootIsScheduled example_env 0 5 (state_armed 16)) 0) = Some 7"
    "callbackPriority (roots (ensureRootIsScheduled example_env 0 5 (state_armed 16)) 0) = 16"
    "scheduled (ensureRootIsScheduled example_env 0 5 (state_armed 16)) = []"
    by (simp_all add: NoLanes_def)
  from conjunct2 [OF inst] c d h
  obtain s1 s2 where
    e: "scheduleUpdateOnFiber example_env 2 16 5 state0 = Some (ReturnsUndefined, s1)"
      "scheduleUpdateOnFiber example_env 1 16 6 s1 = Some (ReturnsUndefined, s2)"
      "scheduled s2 = scheduled s1"
      "armedCount (scheduled s2) = Suc (armedCount (scheduled state0))"
    by (auto simp: NoLanes_def)
  from e(4) c have "armedCount (scheduled s2) = 1" by (simp add: armedCount_def)
  with e have 2: "\<exists>s1 s2. scheduleUpdateOnFiber example_env 2 16 5 state0 = Some (ReturnsUndefined, s1)
          \<and> scheduleUpdateOnFiber example_env 1 16 6 s1 = Some (ReturnsUndefined, s2)
          \<and> scheduled s2 = scheduled s1 \<and> armedCount (scheduled s2) = 1"
    by blast
  from a b 1 c d 2 show ?thesis by simp
qed

text \<open>When the three conditions for time slicing hold, \<open>performConcurrentWorkOnRoot\<close>
  commits \<open>root.current.alternate\<close> without any render: its result does not depend on
  \<open>createWorkInProgress\<close>, \<open>beginWork\<close> or \<open>completeWork\<close>.\<close>

lemma performConcurrentWorkOnRoot_sliced:
  assumes "nextLanesOf env root s \<noteq> NoLanes"
    and "\<not> includesBlockingLane env (laneState (roots s root)) (nextLanesOf env root s)"
    and "\<not> includesExpiredLane env (laneState (roots s root)) (nextLanesOf env root s)"
  shows "performConcurrentWorkOnRoot env root False s
         = Some (ReturnsUndefined,
                 commitRootImpl env root
                   (write_root root (\<lambda>r. r\<lparr>finishedWork := alternate (fibers s (current r))\<rparr>)
                      (s\<lparr>currentEventTime := NoTimestamp env\<rparr>)))"
proof -
  have "nextLanesOf env root (s\<lparr>currentEventTime := NoTimestamp env\<rparr>) = nextLanesOf env root s"
    by (simp add: nextLanesOf_def renderLanesOf_def)
  with assms show ?thesis
    by (simp add: performConcurrentWorkOnRoot_def Let_def renderRootConcurrent_def
        finishConcurrentRender_def commitRoot_def write_root_def)
qed

text \<open>
  Claim C9 asks that, when no blocking lane and no expired lane is selected and the callback
  was not called with \<open>didTimeout\<close>, the yielding concurrent render loop run. The decision
  is made as claimed, but \<open>renderRootConcurrent\<close> has an empty body: on a root with the
  non-blocking lane 64 pending, no unit of work is performed (no fiber is written, the
  \<open>memoizedProps\<close> of the work-in-progress fiber 3 are not brought up to its
  \<open>pendingProps\<close>), and the unrendered alternate is committed as the current tree, the
  pending lane being cleared. With \<open>didTimeout\<close> the synchronous loop renders fiber 3.
\<close>

theorem performConcurrentWorkOnRoot_time_slice_renders_nothing:
  "nextLanesOf example_env 0 state_transition = 64
   \<and> \<not> includesBlockingLane example_env (laneState (roots state_transition 0)) 64
   \<and> \<not> includesExpiredLane example_env (laneState (roots state_transition 0)) 64
   \<and> workInProgress state_transition = None
   \<and> (\<exists>s. performConcurrentWorkOnRoot example_env 0 False state_transition = Some (ReturnsUndefined, s)
         \<and> fibers s = fibers state_transition
         \<and> memoizedProps (fibers s 3) = Null \<and> pendingProps (fibers s 3) = Obj [(''children'', 1)]
         \<and> current (roots s 0) = 3 \<and> laneState (roots s 0) = 0)
   \<and> (\<exists>s. performConcurrentWorkOnRoot example_env 0 True state_transition = Some (ReturnsUndefined, s)
         \<and> memoizedProps (fibers s 3) = Obj [(''children'', 1)]
         \<and> current (roots s 0) = 3)"
  by (simp add: performConcurrentWorkOnRoot_def nextLanesOf_def renderLanesOf_def Let_def example_defs
      getHighestPriorityLane_def NoLanes_def NoLane_def renderRootConcurrent_def renderRootSync_def
      prepareFreshStack_def write_root_def workLoopSync.simps performUnitOfWork_def
      completeUnitOfWork.simps finishConcurrentRender_def commitRoot_def commitRootImpl_def
      rootFinished_def mergeLanes_def)

end
